theory Spec2Isabelle
  imports Main
begin

section \<open>Errors and paths\<close>

text \<open>
  The storage layer of the repository: the afero-backed virtual file system
  (package vfsafero) and the application copiers (package apps, \<^verbatim>\<open>copier.go\<close>).
  Go's \<^verbatim>\<open>error\<close> values are the constructors of one datatype. The sentinel errors of
  package vfs, of package os and of the swift client are constructors of their own;
  every other failure of a backend or of the index is an opaque \<open>BackendError\<close>.
\<close>

datatype error =
    ErrConflict
  | ErrInvalidHash
  | ErrContentLengthMismatch
  | ErrNonAbsolutePath
  | ErrForbiddenDocMove
  | ErrExist
  | ErrNotExist
  | ErrInvalid
  | ObjectNotFound
  | ContainerNotFound
  | BackendError string

type_synonym path = string
type_synonym bytes = string

text \<open>\<^verbatim>\<open>os.IsNotExist\<close> and \<^verbatim>\<open>os.IsExist\<close>: the error kinds they accept.\<close>

definition IsNotExist :: "error option \<Rightarrow> bool" where
  "IsNotExist err = (err = Some ErrNotExist)"

definition IsExist :: "error option \<Rightarrow> bool" where
  "IsExist err = (err = Some ErrExist)"

subsection \<open>Go's package path and package strings\<close>

definition IsAbs :: "path \<Rightarrow> bool" where
  "IsAbs p = (case p of [] \<Rightarrow> False | c # _ \<Rightarrow> c = CHR ''/'')"

text \<open>The elements of a path between its slashes, empty ones included.\<close>

fun split_slash :: "path \<Rightarrow> string list" where
  "split_slash [] = [[]]"
| "split_slash (c # cs) =
     (if c = CHR ''/'' then [] # split_slash cs
      else (case split_slash cs of
              [] \<Rightarrow> [[c]]
            | e # es \<Rightarrow> (c # e) # es))"

fun join_slash :: "string list \<Rightarrow> path" where
  "join_slash [] = []"
| "join_slash [e] = e"
| "join_slash (e # f # es) = e @ CHR ''/'' # join_slash (f # es)"

text \<open>
  \<^verbatim>\<open>path.Clean\<close>, rule by rule: empty elements (multiple slashes) and \<^verbatim>\<open>.\<close>
  are dropped; an inner \<^verbatim>\<open>..\<close> removes the element before it; a \<^verbatim>\<open>..\<close> at the
  start of a rooted path is dropped, and kept at the start of a relative one. The
  first argument says whether the path is rooted, the second is the stack of the
  elements kept so far, the last element first.
\<close>

fun clean_elems :: "bool \<Rightarrow> string list \<Rightarrow> string list \<Rightarrow> string list" where
  "clean_elems rooted st [] = rev st"
| "clean_elems rooted st (e # es) =
     (if e = [] \<or> e = ''.'' then clean_elems rooted st es
      else if e = ''..'' then
        (case st of
           [] \<Rightarrow> if rooted then clean_elems rooted [] es else clean_elems rooted [e] es
         | t # ts \<Rightarrow> if t = ''..'' then clean_elems rooted (e # st) es
                     else clean_elems rooted ts es)
      else clean_elems rooted (e # st) es)"

definition Clean :: "path \<Rightarrow> path" where
  "Clean p =
     (let out = (if IsAbs p then ''/'' else []) @ join_slash (clean_elems (IsAbs p) [] (split_slash p))
      in if out = [] then ''.'' else out)"

text \<open>\<^verbatim>\<open>path.Join\<close>: the non-empty elements joined by slashes and cleaned; empty
  when every element is.\<close>

definition Join :: "string list \<Rightarrow> path" where
  "Join elem =
     (let ne = filter (\<lambda>e. e \<noteq> []) elem
      in if ne = [] then [] else Clean (join_slash ne))"

text \<open>\<^verbatim>\<open>path.Dir\<close>: everything up to the last slash, cleaned.\<close>

definition Dir :: "path \<Rightarrow> path" where
  "Dir p = Clean (rev (dropWhile (\<lambda>c. c \<noteq> CHR ''/'') (rev p)))"

text \<open>\<^verbatim>\<open>path.Ext\<close>: the suffix of the last element from its last dot on.\<close>

definition Ext :: "path \<Rightarrow> string" where
  "Ext p =
     (let final = rev (takeWhile (\<lambda>c. c \<noteq> CHR ''/'') (rev p))
      in if CHR ''.'' \<in> set final
         then CHR ''.'' # rev (takeWhile (\<lambda>c. c \<noteq> CHR ''.'') (rev final))
         else [])"

definition HasPrefix :: "string \<Rightarrow> string \<Rightarrow> bool" where
  "HasPrefix s pre = (take (length pre) s = pre)"

definition TrimPrefix :: "string \<Rightarrow> string \<Rightarrow> string" where
  "TrimPrefix s pre = (if HasPrefix s pre then drop (length pre) s else s)"

section \<open>Documents, the file system and the index\<close>

text \<open>
  The documents of package vfs, with the fields the storage layer reads and writes.
  Package vfs is not among the sources, so the result of \<^verbatim>\<open>doc.Path(afs)\<close>, which
  package vfs derives from the index, is a field of the document: \<open>Inl\<close> the error it
  returns, \<open>Inr\<close> the path. \<open>ByteSize\<close> and the byte counter of a write session are
  Go's \<^verbatim>\<open>int64\<close>, read as integers: the code only assigns and compares them.
  \<open>MD5Sum\<close> is a byte slice, \<open>None\<close> when it is \<^verbatim>\<open>nil\<close>.
\<close>

record FileDoc =
  DocID :: string
  DocRev :: string
  DirID :: string
  DocName :: string
  CreatedAt :: nat
  ByteSize :: int
  MD5Sum :: "bytes option"
  Executable :: bool
  Metadata :: "(string \<times> string) list"
  FilePath :: "error + path"

record DirDoc =
  DirDocID :: string
  DirDocRev :: string
  Fullpath :: path
  DirPath :: "error + path"

datatype fnode = Directory | Regular bytes

text \<open>
  Every call the storage layer makes on the \<^verbatim>\<open>afero.Fs\<close> backend, on an open file
  handle (named by the path it was opened at) and on the \<^verbatim>\<open>vfs.Indexer\<close>.
\<close>

datatype call =
    FsStat path
  | FsRename path path
  | FsRemove path
  | FsRemoveAll path
  | FsMkdir path
  | FsMkdirAll path
  | FsOpenFile path bool
  | FsCreate path
  | FileWrite path bytes
  | FileClose path
  | CreateFileDoc FileDoc
  | UpdateFileDoc FileDoc FileDoc
  | DeleteFileDoc FileDoc
  | DeleteDirDoc DirDoc

text \<open>
  Modelled from the spec: the backend (the afero library) and the index (package vfs and
  its CouchDB indexer) are not among the sources. The backend follows the contract of
  the spec's Backend Abstraction over a flat map from paths to nodes, as afero's
  in-memory file system keeps it; the index keeps the documents by identifier.
  \<open>oplog\<close> records every call in order. \<open>faults\<close> is the part of the backend's
  behaviour the model does not fix: a call it maps to a message fails with that opaque
  backend error and has no effect; any other call behaves as \<open>effect\<close> says.
\<close>

record store =
  files :: "path \<rightharpoonup> fnode"
  file_docs :: "string \<rightharpoonup> FileDoc"
  dir_docs :: "string \<rightharpoonup> DirDoc"
  oplog :: "call list"
  faults :: "call \<Rightarrow> string option"

text \<open>\<open>below d q\<close>: the path \<open>q\<close> lies strictly inside the directory \<open>d\<close>.\<close>

definition below :: "path \<Rightarrow> path \<Rightarrow> bool" where
  "below d q = (q \<noteq> d \<and> HasPrefix q (if d = ''/'' then d else d @ ''/''))"

definition rename_tree :: "(path \<rightharpoonup> fnode) \<Rightarrow> path \<Rightarrow> path \<Rightarrow> (path \<rightharpoonup> fnode)" where
  "rename_tree fs old new =
     (\<lambda>q. if q = new then fs old
          else if below new q then fs (old @ drop (length new) q)
          else if q = old \<or> below old q then None
          else fs q)"

fun effect :: "store \<Rightarrow> call \<Rightarrow> error + store" where
  "effect s (FsStat p) = (if files s p = None then Inl ErrNotExist else Inr s)"
| "effect s (FsRename old new) =
     (if files s old = None then Inl ErrNotExist
      else if old = new then Inr s
      else Inr (s\<lparr>files := rename_tree (files s) old new\<rparr>))"
| "effect s (FsRemove p) =
     (if files s p = None then Inl ErrNotExist
      else Inr (s\<lparr>files := (files s)(p := None)\<rparr>))"
| "effect s (FsRemoveAll p) =
     Inr (s\<lparr>files := (\<lambda>q. if q = p \<or> below p q then None else files s q)\<rparr>)"
| "effect s (FsMkdir p) =
     (if files s p = None then Inr (s\<lparr>files := (files s)(p \<mapsto> Directory)\<rparr>)
      else Inl ErrExist)"
| "effect s (FsMkdirAll p) =
     (case files s p of
        Some (Regular _) \<Rightarrow> Inl (BackendError ''not a directory'')
      | _ \<Rightarrow> Inr (s\<lparr>files := (\<lambda>q. if (q = p \<or> below q p) \<and> files s q = None
                                     then Some Directory else files s q)\<rparr>))"
| "effect s (FsOpenFile p mode) =
     (if files s p = None then Inr (s\<lparr>files := (files s)(p \<mapsto> Regular [])\<rparr>)
      else Inl ErrExist)"
| "effect s (FsCreate p) =
     (case files s p of
        Some Directory \<Rightarrow> Inl (BackendError ''is a directory'')
      | _ \<Rightarrow> Inr (s\<lparr>files := (files s)(p \<mapsto> Regular [])\<rparr>))"
| "effect s (FileWrite p d) =
     (case files s p of
        Some (Regular c) \<Rightarrow> Inr (s\<lparr>files := (files s)(p \<mapsto> Regular (c @ d))\<rparr>)
      | _ \<Rightarrow> Inl (BackendError ''bad file handle''))"
| "effect s (FileClose p) = Inr s"
| "effect s (CreateFileDoc d) = Inr (s\<lparr>file_docs := (file_docs s)(DocID d \<mapsto> d)\<rparr>)"
| "effect s (UpdateFileDoc old new) = Inr (s\<lparr>file_docs := (file_docs s)(DocID old \<mapsto> new)\<rparr>)"
| "effect s (DeleteFileDoc d) = Inr (s\<lparr>file_docs := (file_docs s)(DocID d := None)\<rparr>)"
| "effect s (DeleteDirDoc d) = Inr (s\<lparr>dir_docs := (dir_docs s)(DirDocID d := None)\<rparr>)"

text \<open>One call: logged, then failed by \<open>faults\<close> or carried out by \<open>effect\<close>.\<close>

definition perform :: "store \<Rightarrow> call \<Rightarrow> error option \<times> store" where
  "perform s c =
     (case faults s c of
        Some msg \<Rightarrow> (Some (BackendError msg), s\<lparr>oplog := oplog s @ [c]\<rparr>)
      | None \<Rightarrow>
          (case effect s c of
             Inl e \<Rightarrow> (Some e, s\<lparr>oplog := oplog s @ [c]\<rparr>)
           | Inr s' \<Rightarrow> (None, s'\<lparr>oplog := oplog s @ [c]\<rparr>)))"

text \<open>\<^verbatim>\<open>fs.Stat\<close> with the node it reports.\<close>

definition Stat :: "store \<Rightarrow> path \<Rightarrow> (error + fnode) \<times> store" where
  "Stat s p =
     (case perform s (FsStat p) of
        (Some e, s1) \<Rightarrow> (Inl e, s1)
      | (None, s1) \<Rightarrow>
          (case files s p of
             None \<Rightarrow> (Inl ErrNotExist, s1)
           | Some n \<Rightarrow> (Inr n, s1)))"

section \<open>Package vfsafero\<close>

subsection \<open>Safe create and safe rename\<close>

text \<open>
  \<^verbatim>\<open>safeCreateFile\<close> opens with \<^verbatim>\<open>O_WRONLY|O_CREATE|O_EXCL\<close>; the handle it returns is
  named by the path. The mode of a document is its executable flag.
\<close>

definition safeCreateFile :: "store \<Rightarrow> path \<Rightarrow> bool \<Rightarrow> error option \<times> store" where
  "safeCreateFile s name mode = perform s (FsOpenFile name mode)"

definition safeRenameFile :: "store \<Rightarrow> path \<Rightarrow> path \<Rightarrow> error option \<times> store" where
  "safeRenameFile s oldpath0 newpath0 =
     (let newpath = Clean newpath0;
          oldpath = Clean oldpath0
      in if \<not> IsAbs newpath \<or> \<not> IsAbs oldpath then (Some ErrNonAbsolutePath, s)
         else (case perform s (FsStat newpath) of
                 (None, s1) \<Rightarrow> (Some ErrExist, s1)
               | (Some e, s1) \<Rightarrow>
                   if \<not> IsNotExist (Some e) then (Some e, s1)
                   else perform s1 (FsRename oldpath newpath)))"

definition safeRenameDir :: "store \<Rightarrow> path \<Rightarrow> path \<Rightarrow> error option \<times> store" where
  "safeRenameDir s oldpath0 newpath0 =
     (let newpath = Clean newpath0;
          oldpath = Clean oldpath0
      in if \<not> IsAbs newpath \<or> \<not> IsAbs oldpath then (Some ErrNonAbsolutePath, s)
         else if HasPrefix newpath (oldpath @ ''/'') then (Some ErrForbiddenDocMove, s)
         else (case perform s (FsStat newpath) of
                 (None, s1) \<Rightarrow> (Some ErrExist, s1)
               | (Some e, s1) \<Rightarrow>
                   if \<not> IsNotExist (Some e) then (Some e, s1)
                   else perform s1 (FsRename oldpath newpath)))"

subsection \<open>The write session\<close>

text \<open>
  \<^verbatim>\<open>vfs.MetaExtractor\<close> is not among the sources: an extractor is given by what it
  answers to \<^verbatim>\<open>Write\<close> and to \<^verbatim>\<open>Close\<close>, and by its \<^verbatim>\<open>Result\<close>. The hash accumulator
  of a session is the bytes written to it so far; the digest function (\<^verbatim>\<open>crypto/md5\<close>)
  is a parameter of \<open>Close\<close>.
\<close>

record MetaExtractor =
  mx_write :: "bytes \<Rightarrow> error option"
  mx_close :: "error option"
  mx_result :: "(string \<times> string) list"

record aferoFileCreation =
  fc_f :: path
  fc_w :: int
  fc_newdoc :: FileDoc
  fc_olddoc :: "FileDoc option"
  fc_newpath :: path
  fc_bakpath :: path
  fc_hash :: bytes
  fc_meta :: "MetaExtractor option"
  fc_err :: "error option"

definition CreateFile ::
  "store \<Rightarrow> FileDoc \<Rightarrow> FileDoc option \<Rightarrow> MetaExtractor option
     \<Rightarrow> (error + aferoFileCreation) \<times> store" where
  "CreateFile s newdoc olddoc extractor =
     (case FilePath newdoc of
        Inl e \<Rightarrow> (Inl e, s)
      | Inr newpath \<Rightarrow>
          (let bakpath = (case olddoc of
                            None \<Rightarrow> []
                          | Some od \<Rightarrow> ''/.'' @ DocID od @ ''_'' @ DocRev od);
               (r, s1) = (case olddoc of
                            None \<Rightarrow> (None, s)
                          | Some od \<Rightarrow> safeRenameFile s newpath bakpath)
           in case r of
                Some e \<Rightarrow> (Inl (if IsNotExist (Some e) then ErrConflict else e), s1)
              | None \<Rightarrow>
                  (let newdoc1 = (case olddoc of
                                    None \<Rightarrow> newdoc
                                  | Some od \<Rightarrow> newdoc\<lparr>DocID := DocID od, DocRev := DocRev od,
                                                        CreatedAt := CreatedAt od\<rparr>);
                       (r2, s2) = safeCreateFile s1 newpath (Executable newdoc1)
                   in case r2 of
                        Some e \<Rightarrow> (Inl e, s2)
                      | None \<Rightarrow>
                          (Inr \<lparr>fc_f = newpath, fc_w = 0, fc_newdoc = newdoc1,
                                fc_olddoc = olddoc, fc_newpath = newpath,
                                fc_bakpath = bakpath, fc_hash = [],
                                fc_meta = extractor, fc_err = None\<rparr>, s2))))"

text \<open>
  \<^verbatim>\<open>Write\<close> returns the count and the error with the session and the store. A backend
  write that fails writes nothing.
\<close>

definition Write ::
  "aferoFileCreation \<Rightarrow> bytes \<Rightarrow> store \<Rightarrow> (nat \<times> error option) \<times> aferoFileCreation \<times> store" where
  "Write f p s =
     (case perform s (FileWrite (fc_f f) p) of
        (Some e, s1) \<Rightarrow> ((0, Some e), f\<lparr>fc_err := Some e\<rparr>, s1)
      | (None, s1) \<Rightarrow>
          (let f1 = f\<lparr>fc_w := fc_w f + int (length p)\<rparr>;
               f2 = (case fc_meta f1 of
                       None \<Rightarrow> f1
                     | Some mx \<Rightarrow>
                         (case mx_write mx p of
                            Some e \<Rightarrow> f1\<lparr>fc_meta := None\<rparr>
                          | None \<Rightarrow> f1))
           in ((length p, None), f2\<lparr>fc_hash := fc_hash f2 @ p\<rparr>, s1)))"

text \<open>
  \<^verbatim>\<open>Close\<close> in two parts, as the source has it: the body up to its \<^verbatim>\<open>return\<close>, which
  yields the error and the new document as the body leaves it, and the deferred
  function, which runs on every exit with that error.
\<close>

definition Close_body ::
  "(bytes \<Rightarrow> bytes) \<Rightarrow> aferoFileCreation \<Rightarrow> store \<Rightarrow> error option \<times> FileDoc \<times> store" where
  "Close_body digest f s =
     (case perform s (FileClose (fc_f f)) of
        (Some e, s1) \<Rightarrow> (Some e, fc_newdoc f, s1)
      | (None, s1) \<Rightarrow>
          (case fc_err f of
             Some e \<Rightarrow> (Some e, fc_newdoc f, s1)
           | None \<Rightarrow>
               (let newdoc = fc_newdoc f;
                    written = fc_w f;
                    newdoc1 = (case fc_meta f of
                                 None \<Rightarrow> newdoc
                               | Some mx \<Rightarrow>
                                   (case mx_close mx of
                                      None \<Rightarrow> newdoc\<lparr>Metadata := mx_result mx\<rparr>
                                    | Some errc \<Rightarrow> newdoc));
                    md5sum = digest (fc_hash f);
                    newdoc2 = (if MD5Sum newdoc1 = None then newdoc1\<lparr>MD5Sum := Some md5sum\<rparr>
                               else newdoc1)
                in if MD5Sum newdoc2 \<noteq> Some md5sum then (Some ErrInvalidHash, newdoc2, s1)
                   else
                     (let newdoc3 = (if ByteSize newdoc2 < 0 then newdoc2\<lparr>ByteSize := written\<rparr>
                                     else newdoc2)
                      in if ByteSize newdoc3 \<noteq> written
                         then (Some ErrContentLengthMismatch, newdoc3, s1)
                         else (case fc_olddoc f of
                                 Some olddoc \<Rightarrow>
                                   (case perform s1 (UpdateFileDoc olddoc newdoc3) of
                                      (r, s2) \<Rightarrow> (r, newdoc3, s2))
                               | None \<Rightarrow>
                                   (case perform s1 (CreateFileDoc newdoc3) of
                                      (r, s2) \<Rightarrow> (r, newdoc3, s2)))))))"

definition Close_deferred :: "aferoFileCreation \<Rightarrow> error option \<Rightarrow> store \<Rightarrow> store" where
  "Close_deferred f err s =
     (if err = None \<and> fc_olddoc f \<noteq> None then snd (perform s (FsRemove (fc_bakpath f)))
      else if err \<noteq> None \<and> fc_olddoc f \<noteq> None
        then snd (perform s (FsRename (fc_bakpath f) (fc_newpath f)))
      else if err \<noteq> None then snd (perform s (FsRemove (fc_newpath f)))
      else s)"

definition Close ::
  "(bytes \<Rightarrow> bytes) \<Rightarrow> aferoFileCreation \<Rightarrow> store \<Rightarrow> error option \<times> FileDoc \<times> store" where
  "Close digest f s =
     (case Close_body digest f s of
        (err, newdoc, s1) \<Rightarrow> (err, newdoc, Close_deferred f err s1))"

subsection \<open>Destroying files and directories\<close>

text \<open>
  Modelled from the spec: \<^verbatim>\<open>Indexer.DirIterator\<close> is not among the sources. It yields a
  lazy, finite, non-restartable sequence of the sub-directories and files of a
  directory, ended by \<^verbatim>\<open>ErrIteratorDone\<close>. A directory is therefore given with the
  children its iterator will yield, each child directory with its own: \<open>DirEntry d cs\<close>
  is the document \<open>d\<close> and the sequence \<open>cs\<close>. Reading the iterator is not logged.
\<close>

datatype entry = FileEntry FileDoc | DirEntry DirDoc "entry list"

definition DestroyFile :: "store \<Rightarrow> FileDoc \<Rightarrow> error option \<times> store" where
  "DestroyFile s doc =
     (case FilePath doc of
        Inl e \<Rightarrow> (Some e, s)
      | Inr p \<Rightarrow>
          (case perform s (FsRemove p) of
             (Some e, s1) \<Rightarrow> (Some e, s1)
           | (None, s1) \<Rightarrow> perform s1 (DeleteFileDoc doc)))"

text \<open>
  \<open>DestroyDirContent\<close> is the loop over the iterator: the empty sequence is
  \<^verbatim>\<open>ErrIteratorDone\<close> and leaves the loop; a child directory goes to
  \<open>DestroyDirAndContent\<close>, a child file to \<open>DestroyFile\<close>; an error of a child
  returns at once.
\<close>

fun DestroyDirAndContent :: "store \<Rightarrow> DirDoc \<Rightarrow> entry list \<Rightarrow> error option \<times> store"
  and DestroyDirContent :: "store \<Rightarrow> entry list \<Rightarrow> error option \<times> store" where
  "DestroyDirAndContent s doc cs =
     (case DestroyDirContent s cs of
        (Some e, s1) \<Rightarrow> (Some e, s1)
      | (None, s1) \<Rightarrow>
          (case DirPath doc of
             Inl e \<Rightarrow> (Some e, s1)
           | Inr dirpath \<Rightarrow>
               (case perform s1 (FsRemoveAll dirpath) of
                  (Some e, s2) \<Rightarrow> (Some e, s2)
                | (None, s2) \<Rightarrow> perform s2 (DeleteDirDoc doc))))"
| "DestroyDirContent s [] = (None, s)"
| "DestroyDirContent s (DirEntry d ds # cs) =
     (case DestroyDirAndContent s d ds of
        (Some e, s1) \<Rightarrow> (Some e, s1)
      | (None, s1) \<Rightarrow> DestroyDirContent s1 cs)"
| "DestroyDirContent s (FileEntry f # cs) =
     (case DestroyFile s f of
        (Some e, s1) \<Rightarrow> (Some e, s1)
      | (None, s1) \<Rightarrow> DestroyDirContent s1 cs)"

text \<open>
  The post-order of the spec, in its own words: for each child in turn, a child
  directory is recursed into and a child file is destroyed (backend remove, then index
  delete); after all children, the directory object is removed and its document
  deleted. A document whose path cannot be derived stops the traversal with that
  error. \<open>run_steps\<close> carries the steps out in order and halts at the first error.
\<close>

datatype step = Halt error | Do call

fun destroy_steps :: "entry \<Rightarrow> step list" where
  "destroy_steps (FileEntry f) =
     (case FilePath f of
        Inl e \<Rightarrow> [Halt e]
      | Inr p \<Rightarrow> [Do (FsRemove p), Do (DeleteFileDoc f)])"
| "destroy_steps (DirEntry d cs) =
     concat (map destroy_steps cs) @
     (case DirPath d of
        Inl e \<Rightarrow> [Halt e]
      | Inr p \<Rightarrow> [Do (FsRemoveAll p), Do (DeleteDirDoc d)])"

fun run_steps :: "store \<Rightarrow> step list \<Rightarrow> error option \<times> store" where
  "run_steps s [] = (None, s)"
| "run_steps s (Halt e # ss) = (Some e, s)"
| "run_steps s (Do c # ss) =
     (case perform s c of
        (Some e, s1) \<Rightarrow> (Some e, s1)
      | (None, s1) \<Rightarrow> run_steps s1 ss)"

text \<open>The calls among a sequence of steps.\<close>

fun calls_of :: "step list \<Rightarrow> call list" where
  "calls_of [] = []"
| "calls_of (Halt e # ss) = calls_of ss"
| "calls_of (Do c # ss) = c # calls_of ss"

section \<open>Package apps: the copiers\<close>

text \<open>
  \<^verbatim>\<open>Copy\<close> panics when it is called before \<^verbatim>\<open>Start\<close>: a panic is an outcome of its
  own, apart from the errors a call returns.
\<close>

datatype 'a outcome = Panic string | Returned 'a

text \<open>
  \<^verbatim>\<open>os.FileInfo\<close> as \<^verbatim>\<open>Copy\<close> reads it, and the \<^verbatim>\<open>io.Reader\<close> it copies from: the bytes
  the reader delivers and the error that ends them (\<open>None\<close> at end of file).
\<close>

record fileInfo =
  fi_name :: string
  fi_size :: int

record reader =
  rd_data :: bytes
  rd_err :: "error option"

text \<open>
  Package magic is not among the sources and \<^verbatim>\<open>compress/gzip\<close> is a library: they are
  parameters. \<open>gz_copy\<close> is what the gzip writer hands on while the content is copied
  into it, \<open>gz_close\<close> what it hands on when it is closed.
\<close>

record codec =
  MIMETypeByExtension :: "string \<Rightarrow> string"
  MIMETypeFromReader :: "bytes \<Rightarrow> string"
  gz_copy :: "bytes \<Rightarrow> bytes"
  gz_close :: "bytes \<Rightarrow> bytes"

text \<open>\<^verbatim>\<open>strconv.FormatInt(n, 10)\<close>.\<close>

fun decimal :: "nat \<Rightarrow> string" where
  "decimal n =
     (if n < 10 then [''0123456789'' ! n]
      else decimal (n div 10) @ [''0123456789'' ! (n mod 10)])"

definition FormatInt :: "int \<Rightarrow> string" where
  "FormatInt i = (if i < 0 then CHR ''-'' # decimal (nat (- i)) else decimal (nat i))"

subsection \<open>The object store\<close>

record object =
  ob_data :: bytes
  ob_content_type :: string
  ob_headers :: "(string \<times> string) list"

text \<open>The calls of the copier on the \<^verbatim>\<open>swift.Connection\<close>; a container comes first,
  an object name after it. \<open>SwObjectClose\<close> carries what the open object holds.\<close>

datatype swift_call =
    SwObject string string
  | SwContainer string
  | SwContainerCreate string
  | SwObjectCreate string string string "(string \<times> string) list"
  | SwObjectWrite string string bytes
  | SwObjectClose string string object
  | SwObjectNamesAll string string
  | SwBulkDelete string "string list"
  | SwObjectMove string string string string

text \<open>
  Modelled from the spec: the swift client is a library, not among the sources. The
  store is a list of containers and a list of objects keyed by container and name,
  whose order is the order in which the store lists them. An object reaches the store
  when its upload is closed. As for the file system, \<open>sw_log\<close> records the calls and
  \<open>sw_faults\<close> names the calls that fail with an opaque backend error and no effect.
\<close>

record swift_conn =
  containers :: "string list"
  objects :: "((string \<times> string) \<times> object) list"
  sw_log :: "swift_call list"
  sw_faults :: "swift_call \<Rightarrow> string option"

definition drop_object :: "string \<times> string \<Rightarrow> ((string \<times> string) \<times> object) list
    \<Rightarrow> ((string \<times> string) \<times> object) list" where
  "drop_object k os = filter (\<lambda>kv. fst kv \<noteq> k) os"

definition put_object :: "string \<times> string \<Rightarrow> object \<Rightarrow> ((string \<times> string) \<times> object) list
    \<Rightarrow> ((string \<times> string) \<times> object) list" where
  "put_object k ob os = drop_object k os @ [(k, ob)]"

definition names_with_prefix :: "swift_conn \<Rightarrow> string \<Rightarrow> string \<Rightarrow> string list" where
  "names_with_prefix c cont pre =
     map (\<lambda>kv. snd (fst kv))
       (filter (\<lambda>kv. fst (fst kv) = cont \<and> HasPrefix (snd (fst kv)) pre) (objects c))"

fun sw_effect :: "swift_conn \<Rightarrow> swift_call \<Rightarrow> error + swift_conn" where
  "sw_effect c (SwObject cont name) =
     (if map_of (objects c) (cont, name) = None then Inl ObjectNotFound else Inr c)"
| "sw_effect c (SwContainer cont) =
     (if cont \<in> set (containers c) then Inr c else Inl ContainerNotFound)"
| "sw_effect c (SwContainerCreate cont) =
     (if cont \<in> set (containers c) then Inr c
      else Inr (c\<lparr>containers := containers c @ [cont]\<rparr>))"
| "sw_effect c (SwObjectCreate cont name ctype hdrs) = Inr c"
| "sw_effect c (SwObjectWrite cont name d) = Inr c"
| "sw_effect c (SwObjectClose cont name ob) =
     (if cont \<in> set (containers c)
      then Inr (c\<lparr>objects := put_object (cont, name) ob (objects c)\<rparr>)
      else Inl ContainerNotFound)"
| "sw_effect c (SwObjectNamesAll cont pre) =
     (if cont \<in> set (containers c) then Inr c else Inl ContainerNotFound)"
| "sw_effect c (SwBulkDelete cont names) =
     Inr (c\<lparr>objects := filter (\<lambda>kv. \<not> (fst (fst kv) = cont \<and> snd (fst kv) \<in> set names))
                             (objects c)\<rparr>)"
| "sw_effect c (SwObjectMove cont src cont' dst) =
     (case map_of (objects c) (cont, src) of
        None \<Rightarrow> Inl ObjectNotFound
      | Some ob \<Rightarrow>
          if cont' \<in> set (containers c)
          then Inr (c\<lparr>objects := drop_object (cont, src) (put_object (cont', dst) ob (objects c))\<rparr>)
          else Inl ContainerNotFound)"

definition sw_perform :: "swift_conn \<Rightarrow> swift_call \<Rightarrow> error option \<times> swift_conn" where
  "sw_perform c k =
     (case sw_faults c k of
        Some msg \<Rightarrow> (Some (BackendError msg), c\<lparr>sw_log := sw_log c @ [k]\<rparr>)
      | None \<Rightarrow>
          (case sw_effect c k of
             Inl e \<Rightarrow> (Some e, c\<lparr>sw_log := sw_log c @ [k]\<rparr>)
           | Inr c' \<Rightarrow> (None, c'\<lparr>sw_log := sw_log c @ [k]\<rparr>)))"

text \<open>\<^verbatim>\<open>ObjectNamesAll\<close> with the names it lists.\<close>

definition ObjectNamesAll ::
  "swift_conn \<Rightarrow> string \<Rightarrow> string \<Rightarrow> (error + string list) \<times> swift_conn" where
  "ObjectNamesAll c cont pre =
     (case sw_perform c (SwObjectNamesAll cont pre) of
        (Some e, c1) \<Rightarrow> (Inl e, c1)
      | (None, c1) \<Rightarrow> (Inr (names_with_prefix c cont pre), c1))"

subsection \<open>The swift copier\<close>

record swiftCopier =
  appObj :: string
  tmpObj :: string
  container :: string
  started :: bool

text \<open>\<^verbatim>\<open>NewSwiftCopier\<close>; the container name comes from \<^verbatim>\<open>containerName(appsType)\<close>,
  which is not among the sources.\<close>

definition NewSwiftCopier :: "string \<Rightarrow> swiftCopier" where
  "NewSwiftCopier cont = \<lparr>appObj = [], tmpObj = [], container = cont, started = False\<rparr>"

text \<open>
  \<^verbatim>\<open>Start\<close> returns \<^verbatim>\<open>(exists, err)\<close> with the copier and the connection as it leaves
  them. \<open>rnd\<close> is the string \<^verbatim>\<open>utils.RandomString(20)\<close> draws.
\<close>

definition swift_Start ::
  "swiftCopier \<Rightarrow> string \<Rightarrow> string \<Rightarrow> string \<Rightarrow> swift_conn
     \<Rightarrow> (bool \<times> error option) \<times> swiftCopier \<times> swift_conn" where
  "swift_Start f0 slug version rnd c =
     (let f = f0\<lparr>appObj := Join [slug, version]\<rparr>
      in case sw_perform c (SwObject (container f) (appObj f)) of
           (None, c1) \<Rightarrow> ((True, None), f, c1)
         | (Some e, c1) \<Rightarrow>
             if e \<noteq> ObjectNotFound then ((False, Some e), f, c1)
             else
               (case sw_perform c1 (SwContainer (container f)) of
                  (err, c2) \<Rightarrow>
                    if err = Some ContainerNotFound then
                      (case sw_perform c2 (SwContainerCreate (container f)) of
                         (Some e2, c3) \<Rightarrow> ((False, Some e2), f, c3)
                       | (None, c3) \<Rightarrow>
                           ((False, None),
                            f\<lparr>tmpObj := ''tmp-'' @ rnd @ ''/'', started := True\<rparr>, c3))
                    else ((False, err),
                          f\<lparr>tmpObj := ''tmp-'' @ rnd @ ''/'', started := True\<rparr>, c2)))"

text \<open>
  \<^verbatim>\<open>Copy\<close>: the check of \<open>started\<close>, which panics, and after it the body, which
  returns. The two deferred functions of the body run last, the gzip writer's close
  before the object's: an error of the writer's close is kept when the copy had none,
  an error of the object's close replaces whatever error there was.
\<close>

definition swift_Copy_body ::
  "codec \<Rightarrow> swiftCopier \<Rightarrow> fileInfo \<Rightarrow> reader \<Rightarrow> swift_conn \<Rightarrow> error option \<times> swift_conn" where
  "swift_Copy_body env f stat src c =
     (let objName = Join [tmpObj f, fi_name stat];
          objMeta = [(''X-Object-Meta-content-encoding'', ''gzip''),
                     (''X-Object-Meta-original-content-length'', FormatInt (fi_size stat))];
          contentType0 = MIMETypeByExtension env (Ext (fi_name stat));
          contentType1 = (if contentType0 = [] then MIMETypeFromReader env (rd_data src)
                          else contentType0);
          contentType = (if contentType1 = [] then ''application/octet-stream''
                         else contentType1)
      in case sw_perform c (SwObjectCreate (container f) objName contentType objMeta) of
           (Some e, c1) \<Rightarrow> (Some e, c1)
         | (None, c1) \<Rightarrow>
             (let (w, c2) = sw_perform c1
                              (SwObjectWrite (container f) objName (gz_copy env (rd_data src)));
                  err = (case w of Some e \<Rightarrow> Some e | None \<Rightarrow> rd_err src);
                  (gc, c3) = sw_perform c2
                               (SwObjectWrite (container f) objName (gz_close env (rd_data src)));
                  err1 = (if gc \<noteq> None \<and> err = None then gc else err);
                  held = (case w of Some e \<Rightarrow> [] | None \<Rightarrow> gz_copy env (rd_data src)) @
                         (case gc of Some e \<Rightarrow> [] | None \<Rightarrow> gz_close env (rd_data src));
                  (fc, c4) = sw_perform c3
                               (SwObjectClose (container f) objName
                                  \<lparr>ob_data = held, ob_content_type = contentType,
                                   ob_headers = objMeta\<rparr>)
              in (if fc \<noteq> None then fc else err1, c4)))"

definition swift_Copy ::
  "codec \<Rightarrow> swiftCopier \<Rightarrow> fileInfo \<Rightarrow> reader \<Rightarrow> swift_conn
     \<Rightarrow> (error option \<times> swift_conn) outcome" where
  "swift_Copy env f stat src c =
     (if \<not> started f then Panic ''copier should call Start() before Copy()''
      else Returned (swift_Copy_body env f stat src c))"

definition swift_Abort :: "swiftCopier \<Rightarrow> swift_conn \<Rightarrow> error option \<times> swift_conn" where
  "swift_Abort f c =
     (case ObjectNamesAll c (container f) (tmpObj f) of
        (Inl e, c1) \<Rightarrow> (Some e, c1)
      | (Inr objectNames, c1) \<Rightarrow> sw_perform c1 (SwBulkDelete (container f) objectNames))"

text \<open>
  The loop of \<^verbatim>\<open>Commit\<close> over the staged names: \<open>Some r\<close> when the loop returned \<open>r\<close>
  from inside (what \<^verbatim>\<open>Abort\<close> returned, after a move failed), \<open>None\<close> when it ran
  to its end.
\<close>

fun Commit_moves ::
  "swiftCopier \<Rightarrow> string list \<Rightarrow> swift_conn \<Rightarrow> error option option \<times> swift_conn" where
  "Commit_moves f [] c = (None, c)"
| "Commit_moves f (srcObjectName # rest) c =
     (let dstObjectName = Join [appObj f, TrimPrefix srcObjectName (tmpObj f)]
      in case sw_perform c (SwObjectMove (container f) srcObjectName (container f) dstObjectName) of
           (Some e, c1) \<Rightarrow> (case swift_Abort f c1 of (r, c2) \<Rightarrow> (Some r, c2))
         | (None, c1) \<Rightarrow> Commit_moves f rest c1)"

definition swift_Commit :: "swiftCopier \<Rightarrow> swift_conn \<Rightarrow> error option \<times> swift_conn" where
  "swift_Commit f c =
     (case ObjectNamesAll c (container f) (tmpObj f) of
        (Inl e, c1) \<Rightarrow> (Some e, c1)
      | (Inr objectNames, c1) \<Rightarrow>
          (case Commit_moves f objectNames c1 of
             (Some r, c2) \<Rightarrow> (r, c2)
           | (None, c2) \<Rightarrow>
               (case sw_perform c2 (SwObjectCreate (container f) (appObj f) [] []) of
                  (Some e, c3) \<Rightarrow> (Some e, c3)
                | (None, c3) \<Rightarrow>
                    sw_perform c3
                      (SwObjectClose (container f) (appObj f)
                         \<lparr>ob_data = [], ob_content_type = [], ob_headers = []\<rparr>))))"

subsection \<open>The afero copier\<close>

record aferoCopier =
  appDir :: string
  tmpDir :: string
  af_started :: bool

definition NewAferoCopier :: aferoCopier where
  "NewAferoCopier = \<lparr>appDir = [], tmpDir = [], af_started = False\<rparr>"

text \<open>\<^verbatim>\<open>afero.DirExists\<close>, of the afero library.\<close>

definition DirExists :: "store \<Rightarrow> path \<Rightarrow> (bool \<times> error option) \<times> store" where
  "DirExists s p =
     (case Stat s p of
        (Inr Directory, s1) \<Rightarrow> ((True, None), s1)
      | (Inr (Regular d), s1) \<Rightarrow> ((False, None), s1)
      | (Inl e, s1) \<Rightarrow> if IsNotExist (Some e) then ((False, None), s1) else ((False, Some e), s1))"

text \<open>
  \<^verbatim>\<open>afero.TempDir\<close>, of the afero library: it tries \<^verbatim>\<open>Mkdir\<close> on the directory joined
  with the prefix and a random suffix, again while the name exists. \<open>rnds\<close> are the
  suffixes its random source draws, one for each round of its loop; the results are
  its named results \<^verbatim>\<open>(name, err)\<close>, \<open>err0\<close> the error of the round before.
\<close>

fun TempDir_loop ::
  "store \<Rightarrow> path \<Rightarrow> string \<Rightarrow> error option \<Rightarrow> string list \<Rightarrow> (path \<times> error option) \<times> store" where
  "TempDir_loop s dir pre err0 [] = (([], err0), s)"
| "TempDir_loop s dir pre err0 (r # rnds) =
     (let try = Join [dir, pre @ r]
      in case perform s (FsMkdir try) of
           (err, s1) \<Rightarrow>
             if IsExist err then TempDir_loop s1 dir pre err rnds
             else if err = None then ((try, None), s1)
             else (([], err), s1))"

definition TempDir :: "store \<Rightarrow> path \<Rightarrow> string \<Rightarrow> string list \<Rightarrow> (path \<times> error option) \<times> store" where
  "TempDir s dir pre rnds = TempDir_loop s dir pre None rnds"

definition afero_Start ::
  "aferoCopier \<Rightarrow> string \<Rightarrow> string \<Rightarrow> string list \<Rightarrow> store
     \<Rightarrow> (bool \<times> error option) \<times> aferoCopier \<times> store" where
  "afero_Start f0 slug version rnds s =
     (let f = f0\<lparr>appDir := Join [''/'', slug, version]\<rparr>
      in case DirExists s (appDir f) of
           ((exists, err), s1) \<Rightarrow>
             if err \<noteq> None \<or> exists then ((exists, err), f, s1)
             else
               (let dir = Dir (appDir f)
                in case perform s1 (FsMkdirAll dir) of
                     (Some e, s2) \<Rightarrow> ((False, Some e), f, s2)
                   | (None, s2) \<Rightarrow>
                       (case TempDir s2 dir ''tmp'' rnds of
                          ((name, Some e), s3) \<Rightarrow> ((False, Some e), f\<lparr>tmpDir := name\<rparr>, s3)
                        | ((name, None), s3) \<Rightarrow>
                            ((False, None), f\<lparr>tmpDir := name, af_started := True\<rparr>, s3))))"

definition afero_Copy_body ::
  "codec \<Rightarrow> aferoCopier \<Rightarrow> fileInfo \<Rightarrow> reader \<Rightarrow> store \<Rightarrow> error option \<times> store" where
  "afero_Copy_body env f stat src s =
     (let fullpath = Join [tmpDir f, fi_name stat] @ ''.gz'';
          dir = Dir fullpath
      in case perform s (FsMkdirAll dir) of
           (Some e, s1) \<Rightarrow> (Some e, s1)
         | (None, s1) \<Rightarrow>
             (case perform s1 (FsCreate fullpath) of
                (Some e, s2) \<Rightarrow> (Some e, s2)
              | (None, s2) \<Rightarrow>
                  (let (w, s3) = perform s2 (FileWrite fullpath (gz_copy env (rd_data src)));
                       err = (case w of Some e \<Rightarrow> Some e | None \<Rightarrow> rd_err src);
                       (gc, s4) = perform s3 (FileWrite fullpath (gz_close env (rd_data src)));
                       err1 = (if gc \<noteq> None \<and> err = None then gc else err);
                       (fc, s5) = perform s4 (FileClose fullpath)
                   in (if fc \<noteq> None then fc else err1, s5))))"

definition afero_Copy ::
  "codec \<Rightarrow> aferoCopier \<Rightarrow> fileInfo \<Rightarrow> reader \<Rightarrow> store \<Rightarrow> (error option \<times> store) outcome" where
  "afero_Copy env f stat src s =
     (if \<not> af_started f then Panic ''copier should call Start() before Copy()''
      else Returned (afero_Copy_body env f stat src s))"

definition afero_Commit :: "aferoCopier \<Rightarrow> store \<Rightarrow> error option \<times> store" where
  "afero_Commit f s = perform s (FsRename (tmpDir f) (appDir f))"

definition afero_Abort :: "aferoCopier \<Rightarrow> store \<Rightarrow> error option \<times> store" where
  "afero_Abort f s = perform s (FsRemoveAll (tmpDir f))"

section \<open>What a write session hands on\<close>

text \<open>
  Three names for parts of \<open>Close\<close>, to state its properties. \<open>completed_doc\<close> is the
  new document as \<open>Close\<close> completes it before it reaches the index: the extracted
  metadata, the digest adopted when none was declared, the byte count adopted when the
  declared size is negative. \<open>index_call\<close> is the call on the index that commits it,
  \<open>rollback_call\<close> the call the deferred function makes after an error.
\<close>

definition completed_doc :: "(bytes \<Rightarrow> bytes) \<Rightarrow> aferoFileCreation \<Rightarrow> FileDoc" where
  "completed_doc digest f =
     (let newdoc1 = (case fc_meta f of
                       None \<Rightarrow> fc_newdoc f
                     | Some mx \<Rightarrow>
                         (case mx_close mx of
                            None \<Rightarrow> (fc_newdoc f)\<lparr>Metadata := mx_result mx\<rparr>
                          | Some errc \<Rightarrow> fc_newdoc f));
          newdoc2 = (if MD5Sum newdoc1 = None then newdoc1\<lparr>MD5Sum := Some (digest (fc_hash f))\<rparr>
                     else newdoc1)
      in if ByteSize newdoc2 < 0 then newdoc2\<lparr>ByteSize := fc_w f\<rparr> else newdoc2)"

definition index_call :: "(bytes \<Rightarrow> bytes) \<Rightarrow> aferoFileCreation \<Rightarrow> call" where
  "index_call digest f =
     (case fc_olddoc f of
        Some olddoc \<Rightarrow> UpdateFileDoc olddoc (completed_doc digest f)
      | None \<Rightarrow> CreateFileDoc (completed_doc digest f))"

definition rollback_call :: "aferoFileCreation \<Rightarrow> call" where
  "rollback_call f =
     (case fc_olddoc f of
        Some olddoc \<Rightarrow> FsRename (fc_bakpath f) (fc_newpath f)
      | None \<Rightarrow> FsRemove (fc_newpath f))"

section \<open>Example documents, stores and sessions\<close>

text \<open>
  A store with the root directory and the file \<^verbatim>\<open>/foo\<close> whose content is \<^verbatim>\<open>old\<close>, the
  document of that file, and a new document for the same path that declares the digest
  \<open>h\<close> and the size \<open>n\<close>. The digest function is a parameter of the model; the
  examples take the identity for it.
\<close>

definition foo_store :: "(call \<Rightarrow> string option) \<Rightarrow> store" where
  "foo_store flt =
     \<lparr>files = [''/'' \<mapsto> Directory, ''/foo'' \<mapsto> Regular ''old''],
      file_docs = Map.empty, dir_docs = Map.empty, oplog = [], faults = flt\<rparr>"

definition root_store :: "(call \<Rightarrow> string option) \<Rightarrow> store" where
  "root_store flt =
     \<lparr>files = [''/'' \<mapsto> Directory],
      file_docs = Map.empty, dir_docs = Map.empty, oplog = [], faults = flt\<rparr>"

definition old_foo :: FileDoc where
  "old_foo =
     \<lparr>DocID = ''f1'', DocRev = ''1-a'', DirID = ''root'', DocName = ''foo'', CreatedAt = 1,
      ByteSize = 3, MD5Sum = Some ''old'', Executable = False, Metadata = [],
      FilePath = Inr ''/foo''\<rparr>"

definition new_foo :: "bytes option \<Rightarrow> int \<Rightarrow> FileDoc" where
  "new_foo h n =
     \<lparr>DocID = [], DocRev = [], DirID = ''root'', DocName = ''foo'', CreatedAt = 2,
      ByteSize = n, MD5Sum = h, Executable = False, Metadata = [],
      FilePath = Inr ''/foo''\<rparr>"

text \<open>
  Two sessions run from \<open>CreateFile\<close> through one \<open>Write\<close> to \<open>Close\<close>: one that
  overwrites \<^verbatim>\<open>/foo\<close> in \<open>foo_store\<close>, one that creates \<^verbatim>\<open>/foo\<close> in \<open>root_store\<close>. When
  \<open>CreateFile\<close> fails, its error is the result.
\<close>

definition run_session ::
  "store \<Rightarrow> FileDoc \<Rightarrow> FileDoc option \<Rightarrow> bytes \<Rightarrow> error option \<times> FileDoc \<times> store" where
  "run_session s newdoc olddoc content =
     (case CreateFile s newdoc olddoc None of
        (Inl e, s1) \<Rightarrow> (Some e, newdoc, s1)
      | (Inr f, s1) \<Rightarrow>
          (case Write f content s1 of
             (r, f1, s2) \<Rightarrow> Close (\<lambda>d. d) f1 s2))"

text \<open>
  The session and the store that \<open>CreateFile\<close> and a \<open>Write\<close> of \<open>content\<close> leave
  when \<^verbatim>\<open>/foo\<close> of \<open>foo_store\<close> is overwritten, written out.
\<close>

definition foo_session :: "bytes option \<Rightarrow> int \<Rightarrow> bytes \<Rightarrow> aferoFileCreation" where
  "foo_session h n content =
     \<lparr>fc_f = ''/foo'', fc_w = int (length content),
      fc_newdoc = (new_foo h n)\<lparr>DocID := ''f1'', DocRev := ''1-a'', CreatedAt := 1\<rparr>,
      fc_olddoc = Some old_foo, fc_newpath = ''/foo'', fc_bakpath = ''/.f1_1-a'',
      fc_hash = content, fc_meta = None, fc_err = None\<rparr>"

definition foo_written :: "(call \<Rightarrow> string option) \<Rightarrow> bytes \<Rightarrow> store" where
  "foo_written flt content =
     \<lparr>files = [''/'' \<mapsto> Directory, ''/.f1_1-a'' \<mapsto> Regular ''old'', ''/foo'' \<mapsto> Regular content],
      file_docs = Map.empty, dir_docs = Map.empty,
      oplog = [FsStat ''/.f1_1-a'', FsRename ''/foo'' ''/.f1_1-a'', FsOpenFile ''/foo'' False,
               FileWrite ''/foo'' content],
      faults = flt\<rparr>"

text \<open>The same for a new file \<^verbatim>\<open>/foo\<close> created in \<open>root_store\<close>.\<close>

definition fresh_session :: "bytes option \<Rightarrow> int \<Rightarrow> bytes \<Rightarrow> aferoFileCreation" where
  "fresh_session h n content =
     \<lparr>fc_f = ''/foo'', fc_w = int (length content), fc_newdoc = new_foo h n,
      fc_olddoc = None, fc_newpath = ''/foo'', fc_bakpath = [],
      fc_hash = content, fc_meta = None, fc_err = None\<rparr>"

definition fresh_written :: "(call \<Rightarrow> string option) \<Rightarrow> bytes \<Rightarrow> store" where
  "fresh_written flt content =
     \<lparr>files = [''/'' \<mapsto> Directory, ''/foo'' \<mapsto> Regular content],
      file_docs = Map.empty, dir_docs = Map.empty,
      oplog = [FsOpenFile ''/foo'' False, FileWrite ''/foo'' content],
      faults = flt\<rparr>"

text \<open>
  For the copiers: a codec that knows the extension \<^verbatim>\<open>.json\<close>, copies the content as it
  is and ends it with one byte; an object store with the container \<^verbatim>\<open>apps\<close> or without
  it; the copier of \<^verbatim>\<open>weather\<close>, version \<^verbatim>\<open>1.0.0\<close>, after \<open>Start\<close> drew \<^verbatim>\<open>r\<close>; and
  the two files the spec's example copies.
\<close>

definition plain_codec :: codec where
  "plain_codec =
     \<lparr>MIMETypeByExtension = (\<lambda>e. if e = ''.json'' then ''application/json'' else []),
      MIMETypeFromReader = (\<lambda>d. []),
      gz_copy = (\<lambda>d. d),
      gz_close = (\<lambda>d. ''.'')\<rparr>"

definition apps_conn ::
  "string list \<Rightarrow> ((string \<times> string) \<times> object) list \<Rightarrow> (swift_call \<Rightarrow> string option) \<Rightarrow> swift_conn" where
  "apps_conn conts obs flt = \<lparr>containers = conts, objects = obs, sw_log = [], sw_faults = flt\<rparr>"

definition weather_copier :: swiftCopier where
  "weather_copier =
     \<lparr>appObj = ''weather/1.0.0'', tmpObj = ''tmp-r/'', container = ''apps'', started = True\<rparr>"

definition staged :: "string \<Rightarrow> bytes \<Rightarrow> (string \<times> string) \<times> object" where
  "staged name d =
     ((''apps'', name),
      \<lparr>ob_data = d, ob_content_type = ''application/octet-stream'', ob_headers = []\<rparr>)"

definition manifest_json :: fileInfo where
  "manifest_json = \<lparr>fi_name = ''manifest.json'', fi_size = 10\<rparr>"

definition manifest_reader :: reader where
  "manifest_reader = \<lparr>rd_data = ''0123456789'', rd_err = None\<rparr>"

text \<open>
  For the afero copier: a store in which \<^verbatim>\<open>/weather/1.0.0\<close> is the node \<open>n\<close>, and an
  installation run from \<open>Start\<close> through one \<open>Copy\<close> to \<open>Commit\<close>, which yields what
  the three calls return and the store they leave.
\<close>

definition weather_store :: "(call \<Rightarrow> string option) \<Rightarrow> fnode \<Rightarrow> store" where
  "weather_store flt n =
     \<lparr>files = [''/'' \<mapsto> Directory, ''/weather'' \<mapsto> Directory, ''/weather/1.0.0'' \<mapsto> n],
      file_docs = Map.empty, dir_docs = Map.empty, oplog = [], faults = flt\<rparr>"

definition afero_install ::
  "store \<Rightarrow> (bool \<times> error option) \<times> error option \<times> error option \<times> aferoCopier \<times> store" where
  "afero_install s =
     (case afero_Start NewAferoCopier ''weather'' ''1.0.0'' [''r''] s of
        (r, f, s1) \<Rightarrow>
          (case afero_Copy plain_codec f manifest_json manifest_reader s1 of
             Panic msg \<Rightarrow> (r, None, None, f, s1)
           | Returned (e1, s2) \<Rightarrow>
               (case afero_Commit f s2 of
                  (e2, s3) \<Rightarrow> (r, e1, e2, f, s3))))"

definition marker :: object where
  "marker = \<lparr>ob_data = [], ob_content_type = [], ob_headers = []\<rparr>"

text \<open>
  The afero copier of \<^verbatim>\<open>weather\<close>, version \<^verbatim>\<open>1.0.0\<close>, after \<open>Start\<close> drew \<^verbatim>\<open>r\<close>, and
  the store after it copied \<^verbatim>\<open>manifest.json\<close>.
\<close>

definition weather_afero :: aferoCopier where
  "weather_afero = \<lparr>appDir = ''/weather/1.0.0'', tmpDir = ''/weather/tmpr'', af_started = True\<rparr>"

definition weather_staged :: "(call \<Rightarrow> string option) \<Rightarrow> store" where
  "weather_staged flt =
     \<lparr>files = [''/'' \<mapsto> Directory, ''/weather'' \<mapsto> Directory, ''/weather/tmpr'' \<mapsto> Directory,
               ''/weather/tmpr/manifest.json.gz'' \<mapsto> Regular ''0123456789.''],
      file_docs = Map.empty, dir_docs = Map.empty, oplog = [], faults = flt\<rparr>"

text \<open>
  For the recursive destruction: the directory \<^verbatim>\<open>/d\<close> with the file \<^verbatim>\<open>a\<close>, the
  directory \<^verbatim>\<open>sub\<close> holding the file \<^verbatim>\<open>x\<close>, and the file \<^verbatim>\<open>z\<close>, in the order in which
  the iterator yields them.
\<close>

definition file_at :: "string \<Rightarrow> path \<Rightarrow> FileDoc" where
  "file_at ident p =
     \<lparr>DocID = ident, DocRev = ''1'', DirID = [], DocName = ident, CreatedAt = 0,
      ByteSize = 0, MD5Sum = None, Executable = False, Metadata = [], FilePath = Inr p\<rparr>"

definition dir_at :: "string \<Rightarrow> path \<Rightarrow> DirDoc" where
  "dir_at ident p = \<lparr>DirDocID = ident, DirDocRev = ''1'', Fullpath = p, DirPath = Inr p\<rparr>"

definition d_children :: "entry list" where
  "d_children =
     [FileEntry (file_at ''a'' ''/d/a''),
      DirEntry (dir_at ''sub'' ''/d/sub'') [FileEntry (file_at ''x'' ''/d/sub/x'')],
      FileEntry (file_at ''z'' ''/d/z'')]"

definition d_store :: "(call \<Rightarrow> string option) \<Rightarrow> store" where
  "d_store flt =
     \<lparr>files = [''/'' \<mapsto> Directory, ''/d'' \<mapsto> Directory, ''/d/a'' \<mapsto> Regular [],
               ''/d/sub'' \<mapsto> Directory, ''/d/sub/x'' \<mapsto> Regular [], ''/d/z'' \<mapsto> Regular []],
      file_docs = [''a'' \<mapsto> file_at ''a'' ''/d/a'', ''x'' \<mapsto> file_at ''x'' ''/d/sub/x'',
                   ''z'' \<mapsto> file_at ''z'' ''/d/z''],
      dir_docs = [''d'' \<mapsto> dir_at ''d'' ''/d'', ''sub'' \<mapsto> dir_at ''sub'' ''/d/sub''],
      oplog = [], faults = flt\<rparr>"

section \<open>Properties of single calls\<close>

lemma perform_oplog: "oplog (snd (perform s c)) = oplog s @ [c]"
  by (simp add: perform_def split: option.splits sum.splits)

section \<open>Recursive destruction is post-order and fail-fast\<close>

lemma run_steps_append:
  "run_steps s (xs @ ys) =
     (case run_steps s xs of (Some e, s1) \<Rightarrow> (Some e, s1) | (None, s1) \<Rightarrow> run_steps s1 ys)"
proof (induction xs arbitrary: s)
  case Nil
  show ?case by simp
next
  case (Cons x xs)
  show ?case
  proof (cases x)
    case (Halt e)
    then show ?thesis by simp
  next
    case (Do c)
    then show ?thesis
      using Cons.IH by (cases "perform s c") (simp split: option.splits)
  qed
qed

lemma DestroyFile_steps: "DestroyFile s f = run_steps s (destroy_steps (FileEntry f))"
  by (simp add: DestroyFile_def split: sum.splits prod.splits option.splits)

lemma Destroy_steps:
  "DestroyDirAndContent s doc cs = run_steps s (destroy_steps (DirEntry doc cs))"
  "DestroyDirContent s cs = run_steps s (concat (map destroy_steps cs))"
proof (induction s doc cs and s cs rule: DestroyDirAndContent_DestroyDirContent.induct)
  case (1 s doc cs)
  then show ?case
    by (simp add: run_steps_append split: prod.splits option.splits sum.splits)
next
  case (2 s)
  show ?case by simp
next
  case (3 s d ds cs)
  then show ?case
    by (simp add: run_steps_append split: prod.splits option.splits)
next
  case (4 s f cs)
  then show ?case
    by (simp add: run_steps_append DestroyFile_steps del: destroy_steps.simps
          split: prod.splits option.splits)
qed

lemma run_steps_success_log:
  "fst (run_steps s ss) = None \<Longrightarrow> oplog (snd (run_steps s ss)) = oplog s @ calls_of ss"
proof (induction ss arbitrary: s)
  case Nil
  show ?case by simp
next
  case (Cons st ss)
  show ?case
  proof (cases st)
    case (Halt e)
    with Cons.prems show ?thesis by simp
  next
    case (Do c)
    obtain r s1 where p: "perform s c = (r, s1)" by (cases "perform s c")
    with Cons.prems Do have r: "r = None" by (cases r) simp_all
    with Cons.prems Do p have "fst (run_steps s1 ss) = None" by simp
    from Cons.IH [OF this] have "oplog (snd (run_steps s1 ss)) = oplog s1 @ calls_of ss" .
    moreover have "oplog s1 = oplog s @ [c]" using perform_oplog [of s c] p by simp
    ultimately show ?thesis using Do p r by simp
  qed
qed

lemma run_steps_log_prefix:
  "\<exists>n. oplog (snd (run_steps s ss)) = oplog s @ take n (calls_of ss)"
proof (induction ss arbitrary: s)
  case Nil
  show ?case by simp
next
  case (Cons st ss)
  show ?case
  proof (cases st)
    case (Halt e)
    then show ?thesis by (simp add: exI [of _ 0])
  next
    case (Do c)
    obtain r s1 where p: "perform s c = (r, s1)" by (cases "perform s c")
    have l: "oplog s1 = oplog s @ [c]" using perform_oplog [of s c] p by simp
    show ?thesis
    proof (cases r)
      case None
      from Cons.IH [of s1] obtain n where "oplog (snd (run_steps s1 ss)) = oplog s1 @ take n (calls_of ss)" ..
      then have "oplog (snd (run_steps s (st # ss))) = oplog s @ take (Suc n) (calls_of (st # ss))"
        using Do p None l by simp
      then show ?thesis ..
    next
      case (Some e)
      have "oplog (snd (run_steps s (st # ss))) = oplog s @ take (Suc 0) (calls_of (st # ss))"
        using Do p Some l by simp
      then show ?thesis ..
    qed
  qed
qed

text \<open>
  Claim C7. Destroying a directory with its content does exactly what carrying out the
  post-order sequence of steps does, one step after the other, halting at the first
  error: the steps of every child in the iterator's order (a child directory
  recursively, a child file as backend remove then index delete), and only then the
  removal of the directory's own object and the deletion of its document. Since
  \<open>run_steps\<close> returns at the first failing step, the error of a child is returned at
  once and nothing of a later sibling, nor of the directory itself, is attempted.
  In terms of the log: when the destruction succeeds the calls made are the whole
  post-order sequence, and in every case they are an initial segment of it.
\<close>

theorem DestroyDirAndContent_postorder:
  "DestroyDirAndContent s doc cs = run_steps s (destroy_steps (DirEntry doc cs))
   \<and> destroy_steps (DirEntry doc cs) =
       concat (map destroy_steps cs) @
       (case DirPath doc of
          Inl e \<Rightarrow> [Halt e]
        | Inr p \<Rightarrow> [Do (FsRemoveAll p), Do (DeleteDirDoc doc)])
   \<and> DestroyDirContent s cs = run_steps s (concat (map destroy_steps cs))
   \<and> (fst (DestroyDirAndContent s doc cs) = None
        \<longrightarrow> oplog (snd (DestroyDirAndContent s doc cs))
              = oplog s @ calls_of (destroy_steps (DirEntry doc cs)))
   \<and> (\<exists>n. oplog (snd (DestroyDirAndContent s doc cs))
              = oplog s @ take n (calls_of (destroy_steps (DirEntry doc cs))))"
  using Destroy_steps run_steps_success_log [of s "destroy_steps (DirEntry doc cs)"]
    run_steps_log_prefix [of s "destroy_steps (DirEntry doc cs)"]
  by simp

lemmas d_defs = d_store_def d_children_def file_at_def dir_at_def perform_def below_def
  HasPrefix_def

theorem DestroyDirAndContent_postorder_witness:
  "fst (DestroyDirAndContent (d_store (\<lambda>c. None)) (dir_at ''d'' ''/d'') d_children) = None
   \<and> oplog (snd (DestroyDirAndContent (d_store (\<lambda>c. None)) (dir_at ''d'' ''/d'') d_children))
       = [FsRemove ''/d/a'', DeleteFileDoc (file_at ''a'' ''/d/a''),
          FsRemove ''/d/sub/x'', DeleteFileDoc (file_at ''x'' ''/d/sub/x''),
          FsRemoveAll ''/d/sub'', DeleteDirDoc (dir_at ''sub'' ''/d/sub''),
          FsRemove ''/d/z'', DeleteFileDoc (file_at ''z'' ''/d/z''),
          FsRemoveAll ''/d'', DeleteDirDoc (dir_at ''d'' ''/d'')]
   \<and> fst (DestroyDirAndContent
            (d_store (\<lambda>c. if c = FsRemove ''/d/sub/x'' then Some ''busy'' else None))
            (dir_at ''d'' ''/d'') d_children) = Some (BackendError ''busy'')
   \<and> oplog (snd (DestroyDirAndContent
            (d_store (\<lambda>c. if c = FsRemove ''/d/sub/x'' then Some ''busy'' else None))
            (dir_at ''d'' ''/d'') d_children))
       = [FsRemove ''/d/a'', DeleteFileDoc (file_at ''a'' ''/d/a''), FsRemove ''/d/sub/x'']
   \<and> map (files (snd (DestroyDirAndContent
            (d_store (\<lambda>c. if c = FsRemove ''/d/sub/x'' then Some ''busy'' else None))
            (dir_at ''d'' ''/d'') d_children))) [''/d/a'', ''/d/sub/x'', ''/d/sub'', ''/d/z'', ''/d'']
       = [None, Some (Regular []), Some Directory, Some (Regular []), Some Directory]"
proof -
  let ?busy = "\<lambda>c. if c = FsRemove ''/d/sub/x'' then Some ''busy'' else None"
  have ok: "fst (run_steps (d_store (\<lambda>c. None)) (destroy_steps (DirEntry (dir_at ''d'' ''/d'') d_children))) = None"
    by (simp add: d_defs)
  have steps: "calls_of (destroy_steps (DirEntry (dir_at ''d'' ''/d'') d_children))
       = [FsRemove ''/d/a'', DeleteFileDoc (file_at ''a'' ''/d/a''),
          FsRemove ''/d/sub/x'', DeleteFileDoc (file_at ''x'' ''/d/sub/x''),
          FsRemoveAll ''/d/sub'', DeleteDirDoc (dir_at ''sub'' ''/d/sub''),
          FsRemove ''/d/z'', DeleteFileDoc (file_at ''z'' ''/d/z''),
          FsRemoveAll ''/d'', DeleteDirDoc (dir_at ''d'' ''/d'')]"
    by (simp add: d_children_def file_at_def dir_at_def)
  note t = DestroyDirAndContent_postorder [of "d_store (\<lambda>c. None)" "dir_at ''d'' ''/d''" d_children]
  note u = DestroyDirAndContent_postorder [of "d_store ?busy" "dir_at ''d'' ''/d''" d_children]
  have a: "fst (DestroyDirAndContent (d_store (\<lambda>c. None)) (dir_at ''d'' ''/d'') d_children) = None"
    unfolding t [THEN conjunct1] by (rule ok)
  have b: "oplog (snd (DestroyDirAndContent (d_store (\<lambda>c. None)) (dir_at ''d'' ''/d'') d_children))
       = oplog (d_store (\<lambda>c. None)) @ calls_of (destroy_steps (DirEntry (dir_at ''d'' ''/d'') d_children))"
    using t [THEN conjunct2, THEN conjunct2, THEN conjunct2, THEN conjunct1] a by (rule mp)
  have b': "oplog (snd (DestroyDirAndContent (d_store (\<lambda>c. None)) (dir_at ''d'' ''/d'') d_children))
       = [FsRemove ''/d/a'', DeleteFileDoc (file_at ''a'' ''/d/a''),
          FsRemove ''/d/sub/x'', DeleteFileDoc (file_at ''x'' ''/d/sub/x''),
          FsRemoveAll ''/d/sub'', DeleteDirDoc (dir_at ''sub'' ''/d/sub''),
          FsRemove ''/d/z'', DeleteFileDoc (file_at ''z'' ''/d/z''),
          FsRemoveAll ''/d'', DeleteDirDoc (dir_at ''d'' ''/d'')]"
    unfolding b steps by (simp add: d_store_def)
  have c: "fst (run_steps (d_store ?busy) (destroy_steps (DirEntry (dir_at ''d'' ''/d'') d_children)))
             = Some (BackendError ''busy'')
         \<and> oplog (snd (run_steps (d_store ?busy) (destroy_steps (DirEntry (dir_at ''d'' ''/d'') d_children))))
             = [FsRemove ''/d/a'', DeleteFileDoc (file_at ''a'' ''/d/a''), FsRemove ''/d/sub/x'']
         \<and> map (files (snd (run_steps (d_store ?busy)
                    (destroy_steps (DirEntry (dir_at ''d'' ''/d'') d_children)))))
               [''/d/a'', ''/d/sub/x'', ''/d/sub'', ''/d/z'', ''/d'']
             = [None, Some (Regular []), Some Directory, Some (Regular []), Some Directory]"
    by (simp add: d_defs)
  show ?thesis
    using a b' c unfolding u [THEN conjunct1] by blast
qed

section \<open>Closing a write session\<close>

lemma effect_not_integrity:
  "effect s c \<noteq> Inl ErrInvalidHash \<and> effect s c \<noteq> Inl ErrContentLengthMismatch"
  by (cases c) (simp_all split: option.splits fnode.splits)

lemma perform_not_integrity:
  "fst (perform s c) \<noteq> Some ErrInvalidHash \<and> fst (perform s c) \<noteq> Some ErrContentLengthMismatch"
  using effect_not_integrity [of s c]
  by (auto simp: perform_def split: option.splits sum.splits)

lemma completed_doc_MD5Sum:
  "MD5Sum (completed_doc digest f) =
     (case MD5Sum (fc_newdoc f) of None \<Rightarrow> Some (digest (fc_hash f)) | Some h \<Rightarrow> Some h)"
  by (simp add: completed_doc_def Let_def split: option.splits)

lemma completed_doc_ByteSize:
  "ByteSize (completed_doc digest f) =
     (if ByteSize (fc_newdoc f) < 0 then fc_w f else ByteSize (fc_newdoc f))"
  by (simp add: completed_doc_def Let_def split: option.splits)

text \<open>The body of \<open>Close\<close>, check by check.\<close>

lemma Close_body_cases:
  "Close_body digest f s =
     (case perform s (FileClose (fc_f f)) of
        (Some e, s1) \<Rightarrow> (Some e, fc_newdoc f, s1)
      | (None, s1) \<Rightarrow>
          (case fc_err f of
             Some e \<Rightarrow> (Some e, fc_newdoc f, s1)
           | None \<Rightarrow>
               if MD5Sum (completed_doc digest f) \<noteq> Some (digest (fc_hash f))
               then (Some ErrInvalidHash,
                     (completed_doc digest f)\<lparr>ByteSize := ByteSize (fc_newdoc f)\<rparr>, s1)
               else if ByteSize (completed_doc digest f) \<noteq> fc_w f
               then (Some ErrContentLengthMismatch, completed_doc digest f, s1)
               else (case perform s1 (index_call digest f) of
                       (r, s2) \<Rightarrow> (r, completed_doc digest f, s2))))"
proof -
  obtain r s1 where p: "perform s (FileClose (fc_f f)) = (r, s1)"
    by (cases "perform s (FileClose (fc_f f))")
  show ?thesis
  proof (cases r)
    case (Some e)
    with p show ?thesis by (simp add: Close_body_def)
  next
    case None
    note r = this
    show ?thesis
    proof (cases "fc_err f")
      case (Some e)
      with p r show ?thesis by (simp add: Close_body_def)
    next
      case None
      note noerr = this
      show ?thesis
      proof (cases "fc_meta f")
        case None
        with p r noerr show ?thesis
          by (cases "fc_olddoc f")
             (simp_all add: Close_body_def completed_doc_def index_call_def Let_def)
      next
        case (Some mx)
        with p r noerr show ?thesis
          by (cases "fc_olddoc f"; cases "mx_close mx")
             (simp_all add: Close_body_def completed_doc_def index_call_def Let_def)
      qed
    qed
  qed
qed

lemma perform_FileClose:
  "fst (perform s (FileClose p)) = None \<Longrightarrow>
     snd (perform s (FileClose p)) = s\<lparr>oplog := oplog s @ [FileClose p]\<rparr>"
  by (simp add: perform_def split: option.splits)

lemma perform_rename_restores:
  "faults s (FsRename a b) = None \<Longrightarrow> files s a = Some n \<Longrightarrow>
     files (snd (perform s (FsRename a b))) b = Some n"
  by (auto simp: perform_def rename_tree_def)

lemma perform_remove_gone:
  "faults s (FsRemove p) = None \<Longrightarrow> files (snd (perform s (FsRemove p))) p = None"
  by (simp add: perform_def)

lemma perform_fs_docs:
  "file_docs (snd (perform s (FsRename a b))) = file_docs s"
  "file_docs (snd (perform s (FsRemove p))) = file_docs s"
  by (simp_all add: perform_def split: option.splits)

lemma Close_deferred_rollback:
  "err \<noteq> None \<Longrightarrow> Close_deferred f err s = snd (perform s (rollback_call f))"
  by (cases "fc_olddoc f") (auto simp: Close_deferred_def rollback_call_def)

lemma rollback_docs: "file_docs (snd (perform s (rollback_call f))) = file_docs s"
  by (cases "fc_olddoc f") (simp_all add: rollback_call_def perform_fs_docs)

lemma rollback_restores:
  "fc_olddoc f \<noteq> None \<Longrightarrow> faults s (rollback_call f) = None \<Longrightarrow>
   files s (fc_bakpath f) = Some n \<Longrightarrow>
     files (snd (perform s (rollback_call f))) (fc_newpath f) = Some n"
  by (cases "fc_olddoc f") (simp_all add: rollback_call_def perform_rename_restores)

lemma rollback_removes:
  "fc_olddoc f = None \<Longrightarrow> faults s (rollback_call f) = None \<Longrightarrow>
     files (snd (perform s (rollback_call f))) (fc_newpath f) = None"
  by (simp add: rollback_call_def perform_remove_gone)

text \<open>
  The example sessions, copiers and stores are what the code produces: the sessions by
  \<open>CreateFile\<close> and \<open>Write\<close>, the copiers and the staged stores by \<open>Start\<close> and
  \<open>Copy\<close>.
\<close>

lemma foo_session_reached:
  "case CreateFile (foo_store (\<lambda>c. None)) (new_foo h n) (Some old_foo) None of
     (r, s1) \<Rightarrow>
       r = Inr ((foo_session h n [])\<lparr>fc_w := 0\<rparr>) \<and>
       (case Write ((foo_session h n [])\<lparr>fc_w := 0\<rparr>) content s1 of
          (w, f, s2) \<Rightarrow>
            w = (length content, None) \<and> f = foo_session h n content \<and>
            oplog s2 = oplog (foo_written (\<lambda>c. None) content) \<and>
            map (files s2) [''/'', ''/.f1_1-a'', ''/foo''] =
              map (files (foo_written (\<lambda>c. None) content)) [''/'', ''/.f1_1-a'', ''/foo''])"
  by (simp add: CreateFile_def safeRenameFile_def safeCreateFile_def foo_store_def old_foo_def
        new_foo_def foo_session_def Clean_def IsAbs_def perform_def IsNotExist_def
        rename_tree_def below_def HasPrefix_def Let_def Write_def foo_written_def)

lemma fresh_session_reached:
  "case CreateFile (root_store (\<lambda>c. None)) (new_foo h n) None None of
     (r, s1) \<Rightarrow>
       r = Inr ((fresh_session h n [])\<lparr>fc_w := 0\<rparr>) \<and>
       (case Write ((fresh_session h n [])\<lparr>fc_w := 0\<rparr>) content s1 of
          (w, f, s2) \<Rightarrow>
            w = (length content, None) \<and> f = fresh_session h n content \<and>
            oplog s2 = oplog (fresh_written (\<lambda>c. None) content) \<and>
            map (files s2) [''/'', ''/foo''] =
              map (files (fresh_written (\<lambda>c. None) content)) [''/'', ''/foo''])"
  by (simp add: CreateFile_def safeCreateFile_def root_store_def new_foo_def fresh_session_def
        perform_def Let_def Write_def fresh_written_def)

lemma weather_staged_reached:
  "case afero_Start NewAferoCopier ''weather'' ''1.0.0'' [''r''] (root_store (\<lambda>c. None)) of
     (r, f, s1) \<Rightarrow>
       r = (False, None) \<and> f = weather_afero \<and>
       (case afero_Copy plain_codec f manifest_json manifest_reader s1 of
          Panic msg \<Rightarrow> False
        | Returned (e, s2) \<Rightarrow>
            e = None \<and>
            map (files s2) [''/'', ''/weather'', ''/weather/tmpr'', ''/weather/tmpr/manifest.json.gz'',
                            ''/weather/1.0.0''] =
              map (files (weather_staged (\<lambda>c. None)))
                [''/'', ''/weather'', ''/weather/tmpr'', ''/weather/tmpr/manifest.json.gz'',
                 ''/weather/1.0.0''])"
  by (simp add: afero_Start_def afero_Copy_def afero_Copy_body_def NewAferoCopier_def
        DirExists_def Stat_def TempDir_def IsExist_def IsNotExist_def plain_codec_def
        manifest_json_def manifest_reader_def weather_staged_def weather_afero_def root_store_def
        perform_def Join_def Dir_def Clean_def IsAbs_def Let_def below_def HasPrefix_def)

lemma weather_copier_reached:
  "case swift_Start (NewSwiftCopier ''apps'') ''weather'' ''1.0.0'' ''r'' (apps_conn [] [] (\<lambda>k. None)) of
     (r, f, c1) \<Rightarrow>
       r = (False, None) \<and> f = weather_copier \<and> containers c1 = [''apps''] \<and>
       (case swift_Copy plain_codec f manifest_json manifest_reader c1 of
          Panic msg \<Rightarrow> False
        | Returned (e, c2) \<Rightarrow>
            e = None \<and> map fst (objects c2) = [(''apps'', ''tmp-r/manifest.json'')])"
  by (simp add: swift_Start_def swift_Copy_def swift_Copy_body_def NewSwiftCopier_def
        apps_conn_def weather_copier_def plain_codec_def manifest_json_def manifest_reader_def
        sw_perform_def put_object_def drop_object_def Join_def Clean_def IsAbs_def Ext_def
        FormatInt_def Let_def)

subsection \<open>Integrity failures\<close>

text \<open>
  Claim C1, as stated, fails: the claim has \<open>Close\<close> fail with the integrity error
  whenever the declared digest or size disagrees with what was written. \<open>Close\<close>
  returns the error of the backend close, and after it the recorded write error,
  before it compares anything. Overwriting \<^verbatim>\<open>/foo\<close> with the declared digest of
  \<^verbatim>\<open>new\<close>: when the write fails nothing was written, and \<open>Close\<close> returns the write
  error; when \<^verbatim>\<open>nex\<close> was written and the backend close fails, \<open>Close\<close> returns the
  error of the backend close. Neither is \<open>ErrInvalidHash\<close>.
\<close>

theorem Close_integrity_counterexample:
  "fst (run_session
          (foo_store (\<lambda>c. case c of FileWrite p d \<Rightarrow> Some ''disk full'' | _ \<Rightarrow> None))
          (new_foo (Some ''new'') 3) (Some old_foo) ''new'')
     = Some (BackendError ''disk full'')
   \<and> MD5Sum (fc_newdoc (foo_session (Some ''new'') 3 ''nex'')) = Some ''new''
   \<and> fc_hash (foo_session (Some ''new'') 3 ''nex'') = ''nex''
   \<and> fc_err (foo_session (Some ''new'') 3 ''nex'') = None
   \<and> fst (Close (\<lambda>d. d) (foo_session (Some ''new'') 3 ''nex'')
            (foo_written (\<lambda>c. case c of FileClose p \<Rightarrow> Some ''close failed'' | _ \<Rightarrow> None) ''nex''))
     = Some (BackendError ''close failed'')"
  by (simp add: run_session_def CreateFile_def safeRenameFile_def safeCreateFile_def
        foo_store_def old_foo_def new_foo_def foo_session_def foo_written_def
        Clean_def IsAbs_def perform_def IsNotExist_def rename_tree_def below_def
        HasPrefix_def Let_def Write_def Close_def Close_body_def Close_deferred_def)

text \<open>
  Claim C1, amended. When the backend close succeeds and no write error was recorded,
  and the declared digest or the declared size disagrees with what was written, \<open>Close\<close>
  fails with \<open>ErrInvalidHash\<close> (the digest is compared first) or with
  \<open>ErrContentLengthMismatch\<close>. It makes no call on the index: after the backend close
  the only call is the rollback, and the file documents are unchanged. With a prior
  revision the rollback renames the backup to the final path, so when the backend
  carries the rename out the final path holds the prior content again; without one the
  rollback removes the new object.
\<close>

theorem Close_integrity_mismatch:
  assumes closed: "fst (perform s (FileClose (fc_f f))) = None"
      and nowerr: "fc_err f = None"
      and mismatch:
        "(MD5Sum (fc_newdoc f) \<noteq> None \<and> MD5Sum (fc_newdoc f) \<noteq> Some (digest (fc_hash f)))
         \<or> (0 \<le> ByteSize (fc_newdoc f) \<and> ByteSize (fc_newdoc f) \<noteq> fc_w f)"
  shows "fst (Close digest f s) =
           Some (if MD5Sum (fc_newdoc f) \<noteq> None \<and> MD5Sum (fc_newdoc f) \<noteq> Some (digest (fc_hash f))
                 then ErrInvalidHash else ErrContentLengthMismatch)
       \<and> oplog (snd (snd (Close digest f s))) = oplog s @ [FileClose (fc_f f), rollback_call f]
       \<and> file_docs (snd (snd (Close digest f s))) = file_docs s
       \<and> (fc_olddoc f \<noteq> None \<and> faults s (rollback_call f) = None
            \<and> files s (fc_bakpath f) = Some prior
            \<longrightarrow> files (snd (snd (Close digest f s))) (fc_newpath f) = Some prior)
       \<and> (fc_olddoc f = None \<and> faults s (rollback_call f) = None
            \<longrightarrow> files (snd (snd (Close digest f s))) (fc_newpath f) = None)"
proof -
  let ?s1 = "s\<lparr>oplog := oplog s @ [FileClose (fc_f f)]\<rparr>"
  have p: "perform s (FileClose (fc_f f)) = (None, ?s1)"
    using closed perform_FileClose [OF closed] by (cases "perform s (FileClose (fc_f f))") simp
  let ?e = "if MD5Sum (fc_newdoc f) \<noteq> None \<and> MD5Sum (fc_newdoc f) \<noteq> Some (digest (fc_hash f))
            then ErrInvalidHash else ErrContentLengthMismatch"
  have body: "fst (Close_body digest f s) = Some ?e \<and> snd (snd (Close_body digest f s)) = ?s1"
    using mismatch
    by (auto simp: Close_body_cases p nowerr completed_doc_MD5Sum completed_doc_ByteSize
          split: option.splits)
  have close: "fst (Close digest f s) = Some ?e"
    and st: "snd (snd (Close digest f s)) = snd (perform ?s1 (rollback_call f))"
    using body by (auto simp: Close_def Close_deferred_rollback split: prod.splits)
  show ?thesis
    using close
    by (simp add: st perform_oplog rollback_docs rollback_restores rollback_removes)
qed

lemmas ex_defs = foo_store_def root_store_def old_foo_def new_foo_def foo_session_def
  foo_written_def fresh_session_def fresh_written_def rollback_call_def perform_def

theorem Close_integrity_mismatch_witness:
  "fst (perform (foo_written (\<lambda>c. None) ''nex'') (FileClose (fc_f (foo_session (Some ''new'') 3 ''nex'')))) = None
   \<and> fc_err (foo_session (Some ''new'') 3 ''nex'') = None
   \<and> MD5Sum (fc_newdoc (foo_session (Some ''new'') 3 ''nex'')) = Some ''new''
   \<and> fc_hash (foo_session (Some ''new'') 3 ''nex'') = ''nex''
   \<and> files (foo_written (\<lambda>c. None) ''nex'') ''/.f1_1-a'' = Some (Regular ''old'')
   \<and> fst (Close (\<lambda>d. d) (foo_session (Some ''new'') 3 ''nex'') (foo_written (\<lambda>c. None) ''nex''))
       = Some ErrInvalidHash
   \<and> files (snd (snd (Close (\<lambda>d. d) (foo_session (Some ''new'') 3 ''nex'')
                        (foo_written (\<lambda>c. None) ''nex'')))) ''/foo'' = Some (Regular ''old'')
   \<and> file_docs (snd (snd (Close (\<lambda>d. d) (foo_session (Some ''new'') 3 ''nex'')
                        (foo_written (\<lambda>c. None) ''nex'')))) = Map.empty
   \<and> ByteSize (fc_newdoc (fresh_session None 5 ''abc'')) = 5
   \<and> fc_w (fresh_session None 5 ''abc'') = 3
   \<and> fst (Close (\<lambda>d. d) (fresh_session None 5 ''abc'') (fresh_written (\<lambda>c. None) ''abc''))
       = Some ErrContentLengthMismatch
   \<and> files (snd (snd (Close (\<lambda>d. d) (fresh_session None 5 ''abc'')
                        (fresh_written (\<lambda>c. None) ''abc'')))) ''/foo'' = None"
proof -
  let ?f = "foo_session (Some ''new'') 3 ''nex''" and ?s = "foo_written (\<lambda>c. None) ''nex''"
  let ?g = "fresh_session None 5 ''abc''" and ?t = "fresh_written (\<lambda>c. None) ''abc''"
  have f1: "fst (perform ?s (FileClose (fc_f ?f))) = None" by (simp add: ex_defs)
  have f2: "fc_err ?f = None" by (simp add: ex_defs)
  have f3: "(MD5Sum (fc_newdoc ?f) \<noteq> None \<and> MD5Sum (fc_newdoc ?f) \<noteq> Some ((\<lambda>d. d) (fc_hash ?f)))
         \<or> (0 \<le> ByteSize (fc_newdoc ?f) \<and> ByteSize (fc_newdoc ?f) \<noteq> fc_w ?f)" by (simp add: ex_defs)
  have g1: "fst (perform ?t (FileClose (fc_f ?g))) = None" by (simp add: ex_defs)
  have g2: "fc_err ?g = None" by (simp add: ex_defs)
  have g3: "(MD5Sum (fc_newdoc ?g) \<noteq> None \<and> MD5Sum (fc_newdoc ?g) \<noteq> Some ((\<lambda>d. d) (fc_hash ?g)))
         \<or> (0 \<le> ByteSize (fc_newdoc ?g) \<and> ByteSize (fc_newdoc ?g) \<noteq> fc_w ?g)" by (simp add: ex_defs)
  show ?thesis
    using Close_integrity_mismatch [where digest = "\<lambda>d. d" and prior = "Regular ''old''", OF f1 f2 f3]
          Close_integrity_mismatch [where digest = "\<lambda>d. d" and prior = "Regular ''old''", OF g1 g2 g3]
    by (simp add: ex_defs)
qed

subsection \<open>A failure of the index\<close>

text \<open>
  Claim C8, as stated, fails: the claim has the new content stay at the final path,
  unindexed, when the index call fails after a complete write. The deferred function of
  \<open>Close\<close> runs on every error, the error of the index included. Creating \<^verbatim>\<open>/foo\<close>
  with content \<^verbatim>\<open>new\<close> and no expectations: the index call fails, \<open>Close\<close> returns its
  error, and \<^verbatim>\<open>/foo\<close> is gone. Overwriting \<^verbatim>\<open>/foo\<close>, whose prior content is \<^verbatim>\<open>old\<close>: the
  index call fails, and \<^verbatim>\<open>/foo\<close> holds \<^verbatim>\<open>old\<close> again.
\<close>

theorem Close_index_failure_counterexample:
  "fc_err (fresh_session None (- 1) ''new'') = None
   \<and> files (fresh_written (\<lambda>c. case c of CreateFileDoc d \<Rightarrow> Some ''index down'' | _ \<Rightarrow> None) ''new'') ''/foo''
       = Some (Regular ''new'')
   \<and> fst (Close (\<lambda>d. d) (fresh_session None (- 1) ''new'')
            (fresh_written (\<lambda>c. case c of CreateFileDoc d \<Rightarrow> Some ''index down'' | _ \<Rightarrow> None) ''new''))
       = Some (BackendError ''index down'')
   \<and> files (snd (snd (Close (\<lambda>d. d) (fresh_session None (- 1) ''new'')
            (fresh_written (\<lambda>c. case c of CreateFileDoc d \<Rightarrow> Some ''index down'' | _ \<Rightarrow> None) ''new''))))
         ''/foo'' = None
   \<and> fst (Close (\<lambda>d. d) (foo_session None (- 1) ''new'')
            (foo_written (\<lambda>c. case c of UpdateFileDoc d d' \<Rightarrow> Some ''index down'' | _ \<Rightarrow> None) ''new''))
       = Some (BackendError ''index down'')
   \<and> files (snd (snd (Close (\<lambda>d. d) (foo_session None (- 1) ''new'')
            (foo_written (\<lambda>c. case c of UpdateFileDoc d d' \<Rightarrow> Some ''index down'' | _ \<Rightarrow> None) ''new''))))
         ''/foo'' = Some (Regular ''old'')"
  by (simp add: ex_defs Close_def Close_body_def Close_deferred_def Let_def rename_tree_def)

text \<open>
  Claim C8, amended. When the content is written completely (the backend close
  succeeds, no write error was recorded, the declared digest and size are absent or
  met) and the index call that creates or updates the document fails, \<open>Close\<close> returns
  the error of the index and then rolls the backend back as after any other error: the
  calls are the backend close, the index call and the rollback, the file documents are
  unchanged, and the rollback renames the backup to the final path when a prior
  revision existed (the final path then holds the prior content) and removes the new
  object when none did.
\<close>

theorem Close_index_failure:
  assumes closed: "fst (perform s (FileClose (fc_f f))) = None"
      and nowerr: "fc_err f = None"
      and hash_ok: "MD5Sum (fc_newdoc f) = None \<or> MD5Sum (fc_newdoc f) = Some (digest (fc_hash f))"
      and size_ok: "ByteSize (fc_newdoc f) < 0 \<or> ByteSize (fc_newdoc f) = fc_w f"
      and index_fails: "faults s (index_call digest f) = Some msg"
  shows "fst (Close digest f s) = Some (BackendError msg)
       \<and> oplog (snd (snd (Close digest f s))) =
           oplog s @ [FileClose (fc_f f), index_call digest f, rollback_call f]
       \<and> file_docs (snd (snd (Close digest f s))) = file_docs s
       \<and> (fc_olddoc f \<noteq> None \<and> faults s (rollback_call f) = None
            \<and> files s (fc_bakpath f) = Some prior
            \<longrightarrow> files (snd (snd (Close digest f s))) (fc_newpath f) = Some prior)
       \<and> (fc_olddoc f = None \<and> faults s (rollback_call f) = None
            \<longrightarrow> files (snd (snd (Close digest f s))) (fc_newpath f) = None)"
proof -
  let ?s1 = "s\<lparr>oplog := oplog s @ [FileClose (fc_f f)]\<rparr>"
  let ?s2 = "s\<lparr>oplog := oplog s @ [FileClose (fc_f f), index_call digest f]\<rparr>"
  have p: "perform s (FileClose (fc_f f)) = (None, ?s1)"
    using closed perform_FileClose [OF closed] by (cases "perform s (FileClose (fc_f f))") simp
  have q: "perform ?s1 (index_call digest f) = (Some (BackendError msg), ?s2)"
    using index_fails by (simp add: perform_def)
  have body: "Close_body digest f s = (Some (BackendError msg), completed_doc digest f, ?s2)"
    using hash_ok size_ok
    by (auto simp: Close_body_cases p q nowerr completed_doc_MD5Sum completed_doc_ByteSize)
  have close: "fst (Close digest f s) = Some (BackendError msg)"
    and st: "snd (snd (Close digest f s)) = snd (perform ?s2 (rollback_call f))"
    using body by (auto simp: Close_def Close_deferred_rollback)
  show ?thesis
    using close
    by (simp add: st perform_oplog rollback_docs rollback_restores rollback_removes)
qed

theorem Close_index_failure_witness:
  "fst (perform (foo_written (\<lambda>c. case c of UpdateFileDoc d d' \<Rightarrow> Some ''index down'' | _ \<Rightarrow> None) ''new'')
          (FileClose (fc_f (foo_session None (- 1) ''new'')))) = None
   \<and> fc_err (foo_session None (- 1) ''new'') = None
   \<and> MD5Sum (fc_newdoc (foo_session None (- 1) ''new'')) = None
   \<and> ByteSize (fc_newdoc (foo_session None (- 1) ''new'')) < 0
   \<and> files (foo_written (\<lambda>c. case c of UpdateFileDoc d d' \<Rightarrow> Some ''index down'' | _ \<Rightarrow> None) ''new'')
        ''/.f1_1-a'' = Some (Regular ''old'')
   \<and> fst (Close (\<lambda>d. d) (foo_session None (- 1) ''new'')
            (foo_written (\<lambda>c. case c of UpdateFileDoc d d' \<Rightarrow> Some ''index down'' | _ \<Rightarrow> None) ''new''))
       = Some (BackendError ''index down'')
   \<and> files (snd (snd (Close (\<lambda>d. d) (foo_session None (- 1) ''new'')
            (foo_written (\<lambda>c. case c of UpdateFileDoc d d' \<Rightarrow> Some ''index down'' | _ \<Rightarrow> None) ''new''))))
         ''/foo'' = Some (Regular ''old'')
   \<and> fst (Close (\<lambda>d. d) (fresh_session (Some ''new'') 3 ''new'')
            (fresh_written (\<lambda>c. case c of CreateFileDoc d \<Rightarrow> Some ''index down'' | _ \<Rightarrow> None) ''new''))
       = Some (BackendError ''index down'')
   \<and> files (snd (snd (Close (\<lambda>d. d) (fresh_session (Some ''new'') 3 ''new'')
            (fresh_written (\<lambda>c. case c of CreateFileDoc d \<Rightarrow> Some ''index down'' | _ \<Rightarrow> None) ''new''))))
         ''/foo'' = None"
proof -
  let ?flt = "\<lambda>c. case c of UpdateFileDoc d d' \<Rightarrow> Some ''index down'' | _ \<Rightarrow> None"
  let ?flt' = "\<lambda>c. case c of CreateFileDoc d \<Rightarrow> Some ''index down'' | _ \<Rightarrow> None"
  let ?f = "foo_session None (- 1) ''new''" and ?s = "foo_written ?flt ''new''"
  let ?g = "fresh_session (Some ''new'') 3 ''new''" and ?t = "fresh_written ?flt' ''new''"
  have f1: "fst (perform ?s (FileClose (fc_f ?f))) = None" by (simp add: ex_defs)
  have f2: "fc_err ?f = None" by (simp add: ex_defs)
  have f3: "MD5Sum (fc_newdoc ?f) = None \<or> MD5Sum (fc_newdoc ?f) = Some ((\<lambda>d. d) (fc_hash ?f))"
    by (simp add: ex_defs)
  have f4: "ByteSize (fc_newdoc ?f) < 0 \<or> ByteSize (fc_newdoc ?f) = fc_w ?f" by (simp add: ex_defs)
  have f5: "faults ?s (index_call (\<lambda>d. d) ?f) = Some ''index down''"
    by (simp add: ex_defs index_call_def)
  have g1: "fst (perform ?t (FileClose (fc_f ?g))) = None" by (simp add: ex_defs)
  have g2: "fc_err ?g = None" by (simp add: ex_defs)
  have g3: "MD5Sum (fc_newdoc ?g) = None \<or> MD5Sum (fc_newdoc ?g) = Some ((\<lambda>d. d) (fc_hash ?g))"
    by (simp add: ex_defs)
  have g4: "ByteSize (fc_newdoc ?g) < 0 \<or> ByteSize (fc_newdoc ?g) = fc_w ?g" by (simp add: ex_defs)
  have g5: "faults ?t (index_call (\<lambda>d. d) ?g) = Some ''index down''"
    by (simp add: ex_defs index_call_def)
  show ?thesis
    using Close_index_failure [where digest = "\<lambda>d. d" and prior = "Regular ''old''", OF f1 f2 f3 f4 f5]
          Close_index_failure [where digest = "\<lambda>d. d" and prior = "Regular ''old''", OF g1 g2 g3 g4 g5]
    by (simp add: ex_defs)
qed

subsection \<open>No expectations declared\<close>

lemma CreateFile_session:
  "CreateFile s newdoc olddoc extractor = (Inr f, s1) \<Longrightarrow>
     fc_err f = None \<and> fc_w f = 0 \<and> fc_hash f = []"
  by (auto simp: CreateFile_def Let_def split: sum.splits prod.splits option.splits if_splits)

lemma Write_err_not_integrity:
  "fc_err f \<noteq> Some ErrInvalidHash \<and> fc_err f \<noteq> Some ErrContentLengthMismatch \<Longrightarrow>
     fc_err (fst (snd (Write f p s))) \<noteq> Some ErrInvalidHash \<and>
     fc_err (fst (snd (Write f p s))) \<noteq> Some ErrContentLengthMismatch"
  using perform_not_integrity [of s "FileWrite (fc_f f) p"]
  by (cases "perform s (FileWrite (fc_f f) p)")
     (auto simp: Write_def Let_def split: option.splits)

text \<open>
  Claim C10. When the new document declares no digest (\<open>MD5Sum\<close> is \<^verbatim>\<open>nil\<close>) and a
  negative size, \<open>Close\<close> never fails with an integrity error: the document it
  completes carries the computed digest and the accumulated byte count, so both
  comparisons pass, and the error of \<open>Close\<close> is the error of the backend close, else
  the recorded write error, else the result of the index call. The recorded write
  error is an error of a backend write (\<open>Write_err_not_integrity\<close>,
  \<open>CreateFile_session\<close>), never an integrity error.
\<close>

theorem Close_without_expectations:
  assumes nohash: "MD5Sum (fc_newdoc f) = None"
      and nosize: "ByteSize (fc_newdoc f) < 0"
      and werr: "fc_err f \<noteq> Some ErrInvalidHash" "fc_err f \<noteq> Some ErrContentLengthMismatch"
  shows "fst (Close digest f s) \<noteq> Some ErrInvalidHash
       \<and> fst (Close digest f s) \<noteq> Some ErrContentLengthMismatch
       \<and> MD5Sum (completed_doc digest f) = Some (digest (fc_hash f))
       \<and> ByteSize (completed_doc digest f) = fc_w f
       \<and> fst (Close digest f s) =
           (case fst (perform s (FileClose (fc_f f))) of
              Some e \<Rightarrow> Some e
            | None \<Rightarrow>
                (case fc_err f of
                   Some e \<Rightarrow> Some e
                 | None \<Rightarrow> fst (perform (snd (perform s (FileClose (fc_f f)))) (index_call digest f))))"
proof -
  have m: "MD5Sum (completed_doc digest f) = Some (digest (fc_hash f))"
    using nohash by (simp add: completed_doc_MD5Sum)
  have b: "ByteSize (completed_doc digest f) = fc_w f"
    using nosize by (simp add: completed_doc_ByteSize)
  have eq: "fst (Close digest f s) =
           (case fst (perform s (FileClose (fc_f f))) of
              Some e \<Rightarrow> Some e
            | None \<Rightarrow>
                (case fc_err f of
                   Some e \<Rightarrow> Some e
                 | None \<Rightarrow> fst (perform (snd (perform s (FileClose (fc_f f)))) (index_call digest f))))"
    by (cases "perform s (FileClose (fc_f f))")
       (simp add: Close_def Close_body_cases m b split: prod.splits option.splits)
  have "fst (Close digest f s) \<noteq> Some ErrInvalidHash \<and> fst (Close digest f s) \<noteq> Some ErrContentLengthMismatch"
    unfolding eq using werr perform_not_integrity [of s "FileClose (fc_f f)"]
      perform_not_integrity [of "snd (perform s (FileClose (fc_f f)))" "index_call digest f"]
    by (auto split: option.splits)
  with m b eq show ?thesis by blast
qed

theorem Close_without_expectations_witness:
  "MD5Sum (fc_newdoc (foo_session None (- 1) ''new'')) = None
   \<and> ByteSize (fc_newdoc (foo_session None (- 1) ''new'')) < 0
   \<and> fc_err (foo_session None (- 1) ''new'') = None
   \<and> fst (Close (\<lambda>d. d) (foo_session None (- 1) ''new'') (foo_written (\<lambda>c. None) ''new'')) = None
   \<and> MD5Sum (completed_doc (\<lambda>d. d) (foo_session None (- 1) ''new'')) = Some ''new''
   \<and> ByteSize (completed_doc (\<lambda>d. d) (foo_session None (- 1) ''new'')) = 3
   \<and> file_docs (snd (snd (Close (\<lambda>d. d) (foo_session None (- 1) ''new'')
                        (foo_written (\<lambda>c. None) ''new'')))) ''f1''
       = Some (completed_doc (\<lambda>d. d) (foo_session None (- 1) ''new''))"
proof -
  let ?f = "foo_session None (- 1) ''new''"
  have h1: "MD5Sum (fc_newdoc ?f) = None" by (simp add: ex_defs)
  have h2: "ByteSize (fc_newdoc ?f) < 0" by (simp add: ex_defs)
  have h3: "fc_err ?f \<noteq> Some ErrInvalidHash" by (simp add: ex_defs)
  have h4: "fc_err ?f \<noteq> Some ErrContentLengthMismatch" by (simp add: ex_defs)
  show ?thesis
    using Close_without_expectations
            [where digest = "\<lambda>d. d" and s = "foo_written (\<lambda>c. None) ''new''", OF h1 h2 h3 h4]
    by (simp add: ex_defs index_call_def completed_doc_def Close_def Close_body_def
          Close_deferred_def Let_def)
qed

section \<open>Overwriting a file whose backup rename fails\<close>

lemma IsAbs_Clean: "IsAbs p \<Longrightarrow> IsAbs (Clean p)"
  by (simp add: Clean_def IsAbs_def Let_def)

lemma safeRenameFile_source_gone:
  assumes "IsAbs (Clean oldpath)" "IsAbs (Clean newpath)"
      and "files s (Clean newpath) = None" "faults s (FsStat (Clean newpath)) = None"
      and "files s (Clean oldpath) = None" "faults s (FsRename (Clean oldpath) (Clean newpath)) = None"
  shows "fst (safeRenameFile s oldpath newpath) = Some ErrNotExist"
  using assms by (simp add: safeRenameFile_def Let_def perform_def IsNotExist_def)

text \<open>
  Claim C2. \<open>CreateFile\<close> on an existing document first renames the current object to
  the backup path. Whatever error \<open>e\<close> that rename returns, \<open>CreateFile\<close> returns
  \<open>ErrConflict\<close> when \<open>e\<close> says that the path does not exist and \<open>e\<close> itself
  otherwise, with the store as the rename left it; it never returns the raw not-found
  error. In particular, when the source path is no longer in the store (and the
  backup path is free), \<open>CreateFile\<close> returns \<open>ErrConflict\<close>.
\<close>

theorem CreateFile_backup_rename_fails:
  assumes path: "FilePath newdoc = Inr newpath"
  shows "(safeRenameFile s newpath (''/.'' @ DocID olddoc @ ''_'' @ DocRev olddoc) = (Some e, s1)
            \<longrightarrow> CreateFile s newdoc (Some olddoc) extractor
                  = (Inl (if e = ErrNotExist then ErrConflict else e), s1))
       \<and> fst (CreateFile s newdoc (Some olddoc) extractor) \<noteq> Inl ErrNotExist
       \<and> (IsAbs (Clean newpath) \<and> files s (Clean newpath) = None
            \<and> files s (Clean (''/.'' @ DocID olddoc @ ''_'' @ DocRev olddoc)) = None
            \<and> faults s (FsStat (Clean (''/.'' @ DocID olddoc @ ''_'' @ DocRev olddoc))) = None
            \<and> faults s (FsRename (Clean newpath)
                          (Clean (''/.'' @ DocID olddoc @ ''_'' @ DocRev olddoc))) = None
            \<longrightarrow> fst (CreateFile s newdoc (Some olddoc) extractor) = Inl ErrConflict)"
proof -
  let ?bak = "''/.'' @ DocID olddoc @ ''_'' @ DocRev olddoc"
  have translate: "CreateFile s newdoc (Some olddoc) extractor
                  = (Inl (if e' = ErrNotExist then ErrConflict else e'), s')"
    if "safeRenameFile s newpath ?bak = (Some e', s')" for e' s'
    using that path by (simp add: CreateFile_def IsNotExist_def)
  have never: "fst (CreateFile s newdoc (Some olddoc) extractor) \<noteq> Inl ErrNotExist"
  proof (cases "safeRenameFile s newpath ?bak")
    case (Pair r s')
    show ?thesis
    proof (cases r)
      case None
      have "safeCreateFile s' newpath m \<noteq> (Some ErrNotExist, x)" for m x
        by (simp add: safeCreateFile_def perform_def split: option.splits)
      with Pair None path show ?thesis
        by (auto simp: CreateFile_def Let_def split: prod.splits option.splits)
    next
      case (Some e')
      with Pair translate [of e' s'] show ?thesis by simp
    qed
  qed
  have abs: "IsAbs (Clean ?bak)" by (rule IsAbs_Clean) (simp add: IsAbs_def)
  have gone: "fst (CreateFile s newdoc (Some olddoc) extractor) = Inl ErrConflict"
    if "IsAbs (Clean newpath)" "files s (Clean newpath) = None" "files s (Clean ?bak) = None"
       "faults s (FsStat (Clean ?bak)) = None" "faults s (FsRename (Clean newpath) (Clean ?bak)) = None"
  proof -
    have "fst (safeRenameFile s newpath ?bak) = Some ErrNotExist"
      using that abs by (intro safeRenameFile_source_gone) simp_all
    then obtain s' where "safeRenameFile s newpath ?bak = (Some ErrNotExist, s')"
      by (cases "safeRenameFile s newpath ?bak") simp
    from translate [OF this] show ?thesis by simp
  qed
  from translate never gone show ?thesis by blast
qed

theorem CreateFile_backup_rename_fails_witness:
  "FilePath (new_foo None (- 1)) = Inr ''/foo''
   \<and> files (root_store (\<lambda>c. None)) ''/foo'' = None
   \<and> fst (safeRenameFile (root_store (\<lambda>c. None)) ''/foo'' ''/.f1_1-a'') = Some ErrNotExist
   \<and> fst (CreateFile (root_store (\<lambda>c. None)) (new_foo None (- 1)) (Some old_foo) None) = Inl ErrConflict
   \<and> fst (safeRenameFile (foo_store (\<lambda>c. case c of FsRename a b \<Rightarrow> Some ''io error'' | _ \<Rightarrow> None))
            ''/foo'' ''/.f1_1-a'') = Some (BackendError ''io error'')
   \<and> fst (CreateFile (foo_store (\<lambda>c. case c of FsRename a b \<Rightarrow> Some ''io error'' | _ \<Rightarrow> None))
            (new_foo None (- 1)) (Some old_foo) None) = Inl (BackendError ''io error'')"
proof -
  let ?flt = "\<lambda>c. case c of FsRename a b \<Rightarrow> Some ''io error'' | _ \<Rightarrow> None"
  have p: "FilePath (new_foo None (- 1)) = Inr ''/foo''" by (simp add: new_foo_def)
  have bak: "''/.'' @ DocID old_foo @ ''_'' @ DocRev old_foo = ''/.f1_1-a''" by (simp add: old_foo_def)
  have cl: "Clean ''/foo'' = ''/foo''" "Clean ''/.f1_1-a'' = ''/.f1_1-a''"
    by (simp_all add: Clean_def IsAbs_def)
  have r1: "safeRenameFile (root_store (\<lambda>c. None)) ''/foo'' ''/.f1_1-a''
            = (Some ErrNotExist, (root_store (\<lambda>c. None))\<lparr>oplog := [FsStat ''/.f1_1-a'', FsRename ''/foo'' ''/.f1_1-a'']\<rparr>)"
    by (simp add: safeRenameFile_def cl Let_def IsAbs_def IsNotExist_def ex_defs)
  have r2: "safeRenameFile (foo_store ?flt) ''/foo'' ''/.f1_1-a''
            = (Some (BackendError ''io error''), (foo_store ?flt)\<lparr>oplog := [FsStat ''/.f1_1-a'', FsRename ''/foo'' ''/.f1_1-a'']\<rparr>)"
    by (simp add: safeRenameFile_def cl Let_def IsAbs_def IsNotExist_def ex_defs)
  show ?thesis
    using CreateFile_backup_rename_fails [OF p, of "root_store (\<lambda>c. None)" old_foo ErrNotExist
            "(root_store (\<lambda>c. None))\<lparr>oplog := [FsStat ''/.f1_1-a'', FsRename ''/foo'' ''/.f1_1-a'']\<rparr>" None]
          CreateFile_backup_rename_fails [OF p, of "foo_store ?flt" old_foo "BackendError ''io error''"
            "(foo_store ?flt)\<lparr>oplog := [FsStat ''/.f1_1-a'', FsRename ''/foo'' ''/.f1_1-a'']\<rparr>" None]
    unfolding bak r1 r2 by (simp add: p) (simp add: ex_defs)
qed

section \<open>Renaming a directory\<close>

text \<open>
  The validations of \<open>safeRenameDir\<close>, in the order of the source: a path that is not
  absolute, a destination inside the source (for a source other than the root), a
  destination that exists. The first two return before any call on the backend.
\<close>

lemma safeRenameDir_non_absolute:
  "\<not> IsAbs (Clean newpath) \<or> \<not> IsAbs (Clean oldpath) \<Longrightarrow>
     safeRenameDir s oldpath newpath = (Some ErrNonAbsolutePath, s)"
  by (auto simp: safeRenameDir_def Let_def)

lemma safeRenameDir_forbidden:
  "IsAbs (Clean newpath) \<Longrightarrow> IsAbs (Clean oldpath) \<Longrightarrow> Clean oldpath \<noteq> ''/'' \<Longrightarrow>
   below (Clean oldpath) (Clean newpath) \<Longrightarrow>
     safeRenameDir s oldpath newpath = (Some ErrForbiddenDocMove, s)"
  by (simp add: safeRenameDir_def Let_def below_def)

lemma safeRenameDir_exists:
  "IsAbs (Clean newpath) \<Longrightarrow> IsAbs (Clean oldpath) \<Longrightarrow>
   \<not> HasPrefix (Clean newpath) (Clean oldpath @ ''/'') \<Longrightarrow>
   fst (perform s (FsStat (Clean newpath))) = None \<Longrightarrow>
     safeRenameDir s oldpath newpath = (Some ErrExist, s\<lparr>oplog := oplog s @ [FsStat (Clean newpath)]\<rparr>)"
  by (cases "perform s (FsStat (Clean newpath))")
     (auto simp: safeRenameDir_def Let_def perform_def split: option.splits if_splits)

text \<open>
  Claim C6 at the root directory. The claim has every move of a directory into its own
  subtree fail with \<open>ErrForbiddenDocMove\<close> before the backend is touched. The source
  compares the destination with the source path followed by a slash; for the root
  that is \<^verbatim>\<open>//\<close>, which no cleaned path starts with. Moving \<^verbatim>\<open>/\<close> to \<^verbatim>\<open>/a\<close>, a path
  inside it, passes the check: the backend is asked for \<^verbatim>\<open>/a\<close> and then to rename
  \<^verbatim>\<open>/\<close> to \<^verbatim>\<open>/a\<close>, and the call returns no error. Moving \<^verbatim>\<open>/a\<close> to \<^verbatim>\<open>/a/b/a\<close> is
  refused without a call.
\<close>

theorem safeRenameDir_root_into_child:
  "Clean ''/'' = ''/'' \<and> Clean ''/a'' = ''/a''
   \<and> below ''/'' ''/a''
   \<and> fst (safeRenameDir (root_store (\<lambda>c. None)) ''/'' ''/a'') = None
   \<and> oplog (snd (safeRenameDir (root_store (\<lambda>c. None)) ''/'' ''/a''))
       = [FsStat ''/a'', FsRename ''/'' ''/a'']
   \<and> files (snd (safeRenameDir (root_store (\<lambda>c. None)) ''/'' ''/a'')) ''/a'' = Some Directory
   \<and> safeRenameDir (root_store (\<lambda>c. None)) ''/a'' ''/a/b/a'' = (Some ErrForbiddenDocMove, root_store (\<lambda>c. None))"
  by (simp add: safeRenameDir_def Clean_def IsAbs_def HasPrefix_def below_def Let_def
        IsNotExist_def rename_tree_def ex_defs)

theorem safeRenameDir_root_into_child_witness:
  "below ''/'' ''/a''
   \<and> fst (safeRenameDir (root_store (\<lambda>c. None)) ''/'' ''/a'') \<noteq> Some ErrForbiddenDocMove
   \<and> last (oplog (snd (safeRenameDir (root_store (\<lambda>c. None)) ''/'' ''/a''))) = FsRename ''/'' ''/a''"
  using safeRenameDir_root_into_child by simp

section \<open>Copy before Start\<close>

lemma swift_Copy_panics_iff:
  "(swift_Copy env f stat src c = Panic ''copier should call Start() before Copy()'') = (\<not> started f)"
  "(\<exists>msg. swift_Copy env f stat src c = Panic msg) = (\<not> started f)"
  by (auto simp: swift_Copy_def)

lemma afero_Copy_panics_iff:
  "(afero_Copy env f stat src s = Panic ''copier should call Start() before Copy()'') = (\<not> af_started f)"
  "(\<exists>msg. afero_Copy env f stat src s = Panic msg) = (\<not> af_started f)"
  by (auto simp: afero_Copy_def)

lemma afero_Start_started:
  "\<not> af_started f \<Longrightarrow>
     af_started (fst (snd (afero_Start f slug version rnds s))) =
       (fst (afero_Start f slug version rnds s) = (False, None))"
  by (auto simp: afero_Start_def Let_def split: prod.splits option.splits)

text \<open>
  Claim C9 after a failed \<open>Start\<close> of the swift copier. The claim has \<open>Copy\<close> panic
  whenever \<open>Start\<close> did not succeed with \<^verbatim>\<open>exists = false\<close>. When the lookup of the
  container fails with an error other than \<open>ContainerNotFound\<close>, \<open>swift_Start\<close> skips
  the creation of the container, sets \<open>tmpObj\<close> and \<open>started\<close>, and returns that
  error: \<open>Start\<close> has failed, and a \<open>Copy\<close> after it does not panic.
\<close>

theorem swift_Copy_after_failed_Start:
  "\<not> started (NewSwiftCopier ''apps'')
   \<and> fst (swift_Start (NewSwiftCopier ''apps'') ''weather'' ''1.0.0'' ''r''
            (apps_conn [''apps''] [] (\<lambda>k. case k of SwContainer c \<Rightarrow> Some ''timeout'' | _ \<Rightarrow> None)))
       = (False, Some (BackendError ''timeout''))
   \<and> started (fst (snd (swift_Start (NewSwiftCopier ''apps'') ''weather'' ''1.0.0'' ''r''
            (apps_conn [''apps''] [] (\<lambda>k. case k of SwContainer c \<Rightarrow> Some ''timeout'' | _ \<Rightarrow> None)))))
   \<and> swift_Copy plain_codec
        (fst (snd (swift_Start (NewSwiftCopier ''apps'') ''weather'' ''1.0.0'' ''r''
            (apps_conn [''apps''] [] (\<lambda>k. case k of SwContainer c \<Rightarrow> Some ''timeout'' | _ \<Rightarrow> None)))))
        manifest_json manifest_reader
        (snd (snd (swift_Start (NewSwiftCopier ''apps'') ''weather'' ''1.0.0'' ''r''
            (apps_conn [''apps''] [] (\<lambda>k. case k of SwContainer c \<Rightarrow> Some ''timeout'' | _ \<Rightarrow> None)))))
       \<noteq> Panic ''copier should call Start() before Copy()''"
  by (simp add: swift_Start_def NewSwiftCopier_def apps_conn_def sw_perform_def Join_def Clean_def
        IsAbs_def Let_def swift_Copy_def split: prod.splits)

theorem swift_Copy_after_failed_Start_witness:
  "snd (fst (swift_Start (NewSwiftCopier ''apps'') ''weather'' ''1.0.0'' ''r''
            (apps_conn [''apps''] [] (\<lambda>k. case k of SwContainer c \<Rightarrow> Some ''timeout'' | _ \<Rightarrow> None))))
       \<noteq> None
   \<and> (\<exists>r. swift_Copy plain_codec
        (fst (snd (swift_Start (NewSwiftCopier ''apps'') ''weather'' ''1.0.0'' ''r''
            (apps_conn [''apps''] [] (\<lambda>k. case k of SwContainer c \<Rightarrow> Some ''timeout'' | _ \<Rightarrow> None)))))
        manifest_json manifest_reader
        (snd (snd (swift_Start (NewSwiftCopier ''apps'') ''weather'' ''1.0.0'' ''r''
            (apps_conn [''apps''] [] (\<lambda>k. case k of SwContainer c \<Rightarrow> Some ''timeout'' | _ \<Rightarrow> None)))))
       = Returned r)"
  using swift_Copy_after_failed_Start by (simp add: swift_Copy_def)

section \<open>Start on an installed application\<close>

lemma weather_paths:
  "Join [''weather'', ''1.0.0''] = ''weather/1.0.0''"
  "Join [''/'', ''weather'', ''1.0.0''] = ''/weather/1.0.0''"
  by (simp_all add: Join_def Clean_def IsAbs_def)

lemma sw_lookup_found:
  "fst (sw_perform c (SwObject cont name)) = None \<Longrightarrow>
     sw_perform c (SwObject cont name) = (None, c\<lparr>sw_log := sw_log c @ [SwObject cont name]\<rparr>)"
  by (simp add: sw_perform_def split: option.splits if_splits)

lemma sw_lookup_log:
  "fst (sw_perform (c\<lparr>sw_log := l\<rparr>) (SwObject cont name)) = fst (sw_perform c (SwObject cont name))"
  by (simp add: sw_perform_def split: option.splits)

lemma Stat_found:
  "fst (Stat s p) = Inr n \<Longrightarrow> Stat s p = (Inr n, s\<lparr>oplog := oplog s @ [FsStat p]\<rparr>)"
  by (auto simp: Stat_def perform_def split: option.splits if_splits prod.splits)

lemma Stat_log: "fst (Stat (s\<lparr>oplog := l\<rparr>) p) = fst (Stat s p)"
  by (simp add: Stat_def perform_def split: option.splits)

text \<open>
  Claim C4. When the application is installed at identifier/version, that is, when
  the backend reports the object of that name in the container (swift copier) or a
  directory at that path (afero copier), \<open>Start\<close> returns \<^verbatim>\<open>exists = true\<close> and no
  error. The copier only has its final name set: no staging name is drawn and
  \<open>started\<close> stays as it was. The store only has the lookup added to its log: no
  container, directory or object is created or changed. A second \<open>Start\<close> for the
  same pair, on the copier and the store the first one left, returns
  \<^verbatim>\<open>exists = true\<close> again and again adds only its lookup to the log.
\<close>

theorem Start_exists_no_mutation:
  "(fst (sw_perform c (SwObject (container f) (Join [slug, version]))) = None
    \<longrightarrow> swift_Start f slug version rnd c
          = ((True, None), f\<lparr>appObj := Join [slug, version]\<rparr>,
             c\<lparr>sw_log := sw_log c @ [SwObject (container f) (Join [slug, version])]\<rparr>)
        \<and> swift_Start (f\<lparr>appObj := Join [slug, version]\<rparr>) slug version rnd'
              (c\<lparr>sw_log := sw_log c @ [SwObject (container f) (Join [slug, version])]\<rparr>)
          = ((True, None), f\<lparr>appObj := Join [slug, version]\<rparr>,
             c\<lparr>sw_log := sw_log c @ [SwObject (container f) (Join [slug, version]),
                                       SwObject (container f) (Join [slug, version])]\<rparr>))
   \<and> (fst (Stat s (Join [''/'', slug, version])) = Inr Directory
    \<longrightarrow> afero_Start g slug version rnds s
          = ((True, None), g\<lparr>appDir := Join [''/'', slug, version]\<rparr>,
             s\<lparr>oplog := oplog s @ [FsStat (Join [''/'', slug, version])]\<rparr>)
        \<and> afero_Start (g\<lparr>appDir := Join [''/'', slug, version]\<rparr>) slug version rnds'
              (s\<lparr>oplog := oplog s @ [FsStat (Join [''/'', slug, version])]\<rparr>)
          = ((True, None), g\<lparr>appDir := Join [''/'', slug, version]\<rparr>,
             s\<lparr>oplog := oplog s @ [FsStat (Join [''/'', slug, version]),
                                     FsStat (Join [''/'', slug, version])]\<rparr>))"
proof -
  have sw: "swift_Start f slug version rnd c
          = ((True, None), f\<lparr>appObj := Join [slug, version]\<rparr>,
             c\<lparr>sw_log := sw_log c @ [SwObject (container f) (Join [slug, version])]\<rparr>)"
    if "fst (sw_perform c (SwObject (container f) (Join [slug, version]))) = None"
    for f c rnd
    using sw_lookup_found [OF that] by (simp add: swift_Start_def Let_def)
  have af: "afero_Start g slug version rnds s
          = ((True, None), g\<lparr>appDir := Join [''/'', slug, version]\<rparr>,
             s\<lparr>oplog := oplog s @ [FsStat (Join [''/'', slug, version])]\<rparr>)"
    if "fst (Stat s (Join [''/'', slug, version])) = Inr Directory"
    for g s rnds
    using Stat_found [OF that] by (simp add: afero_Start_def DirExists_def Let_def)
  show ?thesis
  proof (intro conjI impI)
    assume h: "fst (sw_perform c (SwObject (container f) (Join [slug, version]))) = None"
    let ?f1 = "f\<lparr>appObj := Join [slug, version]\<rparr>"
    let ?c1 = "c\<lparr>sw_log := sw_log c @ [SwObject (container f) (Join [slug, version])]\<rparr>"
    from h show "swift_Start f slug version rnd c = ((True, None), ?f1, ?c1)"
      by (rule sw)
    have "fst (sw_perform ?c1 (SwObject (container ?f1) (Join [slug, version]))) = None"
      using h by (simp add: sw_lookup_log)
    from sw [OF this, of rnd']
    show "swift_Start ?f1 slug version rnd' ?c1
          = ((True, None), ?f1,
             c\<lparr>sw_log := sw_log c @ [SwObject (container f) (Join [slug, version]),
                                       SwObject (container f) (Join [slug, version])]\<rparr>)"
      by simp
  next
    assume h: "fst (Stat s (Join [''/'', slug, version])) = Inr Directory"
    let ?g1 = "g\<lparr>appDir := Join [''/'', slug, version]\<rparr>"
    let ?s1 = "s\<lparr>oplog := oplog s @ [FsStat (Join [''/'', slug, version])]\<rparr>"
    from h show "afero_Start g slug version rnds s = ((True, None), ?g1, ?s1)"
      by (rule af)
    have "fst (Stat ?s1 (Join [''/'', slug, version])) = Inr Directory"
      using h by (simp add: Stat_log)
    from af [OF this, of ?g1 rnds']
    show "afero_Start ?g1 slug version rnds' ?s1
          = ((True, None), ?g1,
             s\<lparr>oplog := oplog s @ [FsStat (Join [''/'', slug, version]),
                                     FsStat (Join [''/'', slug, version])]\<rparr>)"
      by simp
  qed
qed

theorem Start_exists_no_mutation_witness:
  "map_of (objects (apps_conn [''apps''] [((''apps'', ''weather/1.0.0''), marker)] (\<lambda>k. None)))
       (''apps'', ''weather/1.0.0'') = Some marker
   \<and> swift_Start (NewSwiftCopier ''apps'') ''weather'' ''1.0.0'' ''r''
         (apps_conn [''apps''] [((''apps'', ''weather/1.0.0''), marker)] (\<lambda>k. None))
       = ((True, None),
          \<lparr>appObj = ''weather/1.0.0'', tmpObj = [], container = ''apps'', started = False\<rparr>,
          (apps_conn [''apps''] [((''apps'', ''weather/1.0.0''), marker)] (\<lambda>k. None))
            \<lparr>sw_log := [SwObject ''apps'' ''weather/1.0.0'']\<rparr>)
   \<and> fst (swift_Start
            \<lparr>appObj = ''weather/1.0.0'', tmpObj = [], container = ''apps'', started = False\<rparr>
            ''weather'' ''1.0.0'' ''q''
            ((apps_conn [''apps''] [((''apps'', ''weather/1.0.0''), marker)] (\<lambda>k. None))
               \<lparr>sw_log := [SwObject ''apps'' ''weather/1.0.0'']\<rparr>))
       = (True, None)
   \<and> files (weather_store (\<lambda>c. None) Directory) ''/weather/1.0.0'' = Some Directory
   \<and> afero_Start NewAferoCopier ''weather'' ''1.0.0'' [''r''] (weather_store (\<lambda>c. None) Directory)
       = ((True, None),
          \<lparr>appDir = ''/weather/1.0.0'', tmpDir = [], af_started = False\<rparr>,
          (weather_store (\<lambda>c. None) Directory)\<lparr>oplog := [FsStat ''/weather/1.0.0'']\<rparr>)
   \<and> fst (afero_Start \<lparr>appDir = ''/weather/1.0.0'', tmpDir = [], af_started = False\<rparr>
            ''weather'' ''1.0.0'' [''q'']
            ((weather_store (\<lambda>c. None) Directory)\<lparr>oplog := [FsStat ''/weather/1.0.0'']\<rparr>))
       = (True, None)"
proof -
  let ?c = "apps_conn [''apps''] [((''apps'', ''weather/1.0.0''), marker)] (\<lambda>k. None)"
  let ?s = "weather_store (\<lambda>c. None) Directory"
  note t = Start_exists_no_mutation
          [where c = ?c and f = "NewSwiftCopier ''apps''" and slug = "''weather''"
             and version = "''1.0.0''" and rnd = "''r''" and rnd' = "''q''"
             and s = ?s and g = NewAferoCopier and rnds = "[''r'']" and rnds' = "[''q'']"]
  have a: "fst (sw_perform ?c (SwObject (container (NewSwiftCopier ''apps'')) (Join [''weather'', ''1.0.0''])))
             = None"
    by (simp add: weather_paths apps_conn_def NewSwiftCopier_def sw_perform_def)
  have b: "fst (Stat ?s (Join [''/'', ''weather'', ''1.0.0''])) = Inr Directory"
    by (simp add: weather_paths weather_store_def Stat_def perform_def)
  note sw = t [THEN conjunct1, THEN mp, OF a] and af = t [THEN conjunct2, THEN mp, OF b]
  have "map_of (objects ?c) (''apps'', ''weather/1.0.0'') = Some marker"
    and "files ?s ''/weather/1.0.0'' = Some Directory"
    by (simp_all add: apps_conn_def weather_store_def)
  then show ?thesis
    using sw af
    by (simp add: weather_paths NewSwiftCopier_def NewAferoCopier_def)
       (simp add: apps_conn_def weather_store_def)
qed

section \<open>The completion marker\<close>

lemma map_of_put_object: "map_of (put_object k ob os) k = Some ob"
  by (induction os) (auto simp: put_object_def drop_object_def)

lemma DirExists_Stat:
  "fst (fst (DirExists s p)) = (fst (Stat s p) = Inr Directory)"
  by (cases "Stat s p") (auto simp: DirExists_def split: sum.splits fnode.splits)

lemma afero_Start_exists:
  "fst (fst (afero_Start g slug version rnds s)) = (fst (Stat s (Join [''/'', slug, version])) = Inr Directory)"
  using DirExists_Stat [of s "Join [''/'', slug, version]"]
  by (cases "DirExists s (Join [''/'', slug, version])")
     (auto simp: afero_Start_def Let_def split: prod.splits option.splits)

lemma swift_Start_exists:
  "fst (fst (swift_Start f slug version rnd c))
     = (fst (sw_perform c (SwObject (container f) (Join [slug, version]))) = None)"
  by (cases "sw_perform c (SwObject (container f) (Join [slug, version]))")
     (auto simp: swift_Start_def Let_def split: prod.splits option.splits)

text \<open>
  Claim C5, as stated, fails for the afero copier: the claim has both copiers write a
  zero-length marker at identifier/version and has \<open>Start\<close> look for that marker.
  The afero copier's \<open>Commit\<close> is one rename of the staging directory to
  identifier/version, and its \<open>Start\<close> asks whether that path is a directory.
  Installing \<^verbatim>\<open>weather\<close> \<^verbatim>\<open>1.0.0\<close> into a store that holds only the root: all calls
  succeed, the calls on the backend end with the rename, and \<^verbatim>\<open>/weather/1.0.0\<close> is a
  directory, not a zero-length file. And with a zero-length file at
  \<^verbatim>\<open>/weather/1.0.0\<close>, \<open>Start\<close> returns \<^verbatim>\<open>exists = false\<close>.
\<close>

theorem afero_Commit_marker_counterexample:
  "fst (afero_install (root_store (\<lambda>c. None))) = (False, None)
   \<and> fst (snd (afero_install (root_store (\<lambda>c. None)))) = None
   \<and> fst (snd (snd (afero_install (root_store (\<lambda>c. None))))) = None
   \<and> oplog (snd (snd (snd (snd (afero_install (root_store (\<lambda>c. None)))))))
       = [FsStat ''/weather/1.0.0'', FsMkdirAll ''/weather'', FsMkdir ''/weather/tmpr'',
          FsMkdirAll ''/weather/tmpr'', FsCreate ''/weather/tmpr/manifest.json.gz'',
          FileWrite ''/weather/tmpr/manifest.json.gz'' ''0123456789'',
          FileWrite ''/weather/tmpr/manifest.json.gz'' ''.'',
          FileClose ''/weather/tmpr/manifest.json.gz'',
          FsRename ''/weather/tmpr'' ''/weather/1.0.0'']
   \<and> files (snd (snd (snd (snd (afero_install (root_store (\<lambda>c. None))))))) ''/weather/1.0.0''
       = Some Directory
   \<and> files (weather_store (\<lambda>c. None) (Regular [])) ''/weather/1.0.0'' = Some (Regular [])
   \<and> fst (afero_Start NewAferoCopier ''weather'' ''1.0.0'' [''r'']
            (weather_store (\<lambda>c. None) (Regular []))) = (False, None)"
  by (simp add: afero_install_def afero_Start_def afero_Copy_def afero_Copy_body_def
        afero_Commit_def NewAferoCopier_def DirExists_def Stat_def TempDir_def IsExist_def
        IsNotExist_def plain_codec_def manifest_json_def manifest_reader_def weather_store_def
        root_store_def perform_def Join_def Dir_def Clean_def IsAbs_def Let_def below_def
        HasPrefix_def rename_tree_def)

text \<open>
  Claim C5, amended. Swift copier: after every staged object has been moved, \<open>Commit\<close>
  creates an object at identifier/version and closes it without writing to it; when
  the backend carries both calls out, \<open>Commit\<close> returns no error and the object at
  identifier/version is the zero-length marker. Its \<open>Start\<close> returns
  \<^verbatim>\<open>exists = true\<close> exactly when the lookup of that object succeeds. Afero copier:
  \<open>Commit\<close> is the rename of the staging directory to identifier/version and writes no
  marker; when it succeeds, identifier/version is what the staging directory was. Its
  \<open>Start\<close> returns \<^verbatim>\<open>exists = true\<close> exactly when the backend reports a directory at
  identifier/version.
\<close>

theorem Commit_completion_marker:
  "(ObjectNamesAll c (container f) (tmpObj f) = (Inr names, c1)
      \<and> Commit_moves f names c1 = (None, c2)
      \<and> container f \<in> set (containers c2)
      \<and> sw_faults c2 (SwObjectCreate (container f) (appObj f) [] []) = None
      \<and> sw_faults c2 (SwObjectClose (container f) (appObj f) marker) = None
    \<longrightarrow> fst (swift_Commit f c) = None
        \<and> map_of (objects (snd (swift_Commit f c))) (container f, appObj f) = Some marker
        \<and> ob_data marker = [])
   \<and> fst (fst (swift_Start f slug version rnd c))
       = (fst (sw_perform c (SwObject (container f) (Join [slug, version]))) = None)
   \<and> afero_Commit g s = perform s (FsRename (tmpDir g) (appDir g))
   \<and> (fst (afero_Commit g s) = None
    \<longrightarrow> files (snd (afero_Commit g s)) (appDir g) = files s (tmpDir g)
        \<and> files s (tmpDir g) \<noteq> None)
   \<and> fst (fst (afero_Start g slug version rnds s))
       = (fst (Stat s (Join [''/'', slug, version])) = Inr Directory)"
proof -
  have sw: "fst (swift_Commit f c) = None
        \<and> map_of (objects (snd (swift_Commit f c))) (container f, appObj f) = Some marker"
    if "ObjectNamesAll c (container f) (tmpObj f) = (Inr names, c1)"
       "Commit_moves f names c1 = (None, c2)"
       "container f \<in> set (containers c2)"
       "sw_faults c2 (SwObjectCreate (container f) (appObj f) [] []) = None"
       "sw_faults c2 (SwObjectClose (container f) (appObj f) marker) = None"
    using that
    by (simp add: swift_Commit_def sw_perform_def marker_def map_of_put_object)
  have af: "files (snd (afero_Commit g s)) (appDir g) = files s (tmpDir g) \<and> files s (tmpDir g) \<noteq> None"
    if "fst (afero_Commit g s) = None"
    using that
    by (auto simp: afero_Commit_def perform_def rename_tree_def split: option.splits if_splits)
  show ?thesis
    using sw af by (simp add: swift_Start_exists afero_Start_exists afero_Commit_def marker_def)
qed

lemmas copier_defs = apps_conn_def weather_copier_def staged_def marker_def weather_afero_def
  weather_staged_def NewSwiftCopier_def NewAferoCopier_def

lemmas swift_run_defs = swift_Commit_def swift_Abort_def ObjectNamesAll_def names_with_prefix_def
  sw_perform_def put_object_def drop_object_def HasPrefix_def TrimPrefix_def Join_def Clean_def
  IsAbs_def Let_def

theorem Commit_completion_marker_witness:
  "fst (swift_Commit weather_copier (apps_conn [''apps''] [staged ''tmp-r/manifest.json'' ''m''] (\<lambda>k. None)))
     = None
   \<and> map (fst) (objects (snd (swift_Commit weather_copier
             (apps_conn [''apps''] [staged ''tmp-r/manifest.json'' ''m''] (\<lambda>k. None)))))
       = [(''apps'', ''weather/1.0.0/manifest.json''), (''apps'', ''weather/1.0.0'')]
   \<and> map_of (objects (snd (swift_Commit weather_copier
             (apps_conn [''apps''] [staged ''tmp-r/manifest.json'' ''m''] (\<lambda>k. None)))))
         (''apps'', ''weather/1.0.0'') = Some marker
   \<and> fst (afero_Commit weather_afero (weather_staged (\<lambda>c. None))) = None
   \<and> files (snd (afero_Commit weather_afero (weather_staged (\<lambda>c. None)))) ''/weather/1.0.0''
       = Some Directory
   \<and> files (snd (afero_Commit weather_afero (weather_staged (\<lambda>c. None))))
         ''/weather/1.0.0/manifest.json.gz'' = Some (Regular ''0123456789.'')"
proof -
  let ?c = "apps_conn [''apps''] [staged ''tmp-r/manifest.json'' ''m''] (\<lambda>k. None)"
  let ?c1 = "?c\<lparr>sw_log := [SwObjectNamesAll ''apps'' ''tmp-r/'']\<rparr>"
  let ?c2 = "snd (Commit_moves weather_copier [''tmp-r/manifest.json''] ?c1)"
  let ?s = "weather_staged (\<lambda>c. None)"
  have n: "ObjectNamesAll ?c (container weather_copier) (tmpObj weather_copier)
             = (Inr [''tmp-r/manifest.json''], ?c1)"
    by (simp add: copier_defs swift_run_defs)
  have m: "Commit_moves weather_copier [''tmp-r/manifest.json''] ?c1 = (None, ?c2)"
    by (simp add: copier_defs swift_run_defs)
  have c2: "containers ?c2 = [''apps'']" "sw_faults ?c2 = (\<lambda>k. None)"
    by (simp_all add: copier_defs swift_run_defs)
  have h: "ObjectNamesAll ?c (container weather_copier) (tmpObj weather_copier)
             = (Inr [''tmp-r/manifest.json''], ?c1)
      \<and> Commit_moves weather_copier [''tmp-r/manifest.json''] ?c1 = (None, ?c2)
      \<and> container weather_copier \<in> set (containers ?c2)
      \<and> sw_faults ?c2 (SwObjectCreate (container weather_copier) (appObj weather_copier) [] []) = None
      \<and> sw_faults ?c2 (SwObjectClose (container weather_copier) (appObj weather_copier) marker) = None"
    unfolding c2 using n m by (simp_all add: weather_copier_def)
  note t = Commit_completion_marker
      [where c = ?c and f = weather_copier and names = "[''tmp-r/manifest.json'']" and ?c1.0 = ?c1
         and ?c2.0 = ?c2 and g = weather_afero and s = ?s]
  note sw = t [THEN conjunct1, THEN mp, OF h]
  have a: "fst (afero_Commit weather_afero ?s) = None"
    by (simp add: afero_Commit_def copier_defs perform_def)
  note af = t [THEN conjunct2, THEN conjunct2, THEN conjunct2, THEN conjunct1, THEN mp, OF a]
  have "map (fst) (objects (snd (swift_Commit weather_copier ?c)))
       = [(''apps'', ''weather/1.0.0/manifest.json''), (''apps'', ''weather/1.0.0'')]"
    by (simp add: copier_defs swift_run_defs)
  moreover have "files (snd (afero_Commit weather_afero ?s)) ''/weather/1.0.0/manifest.json.gz''
       = Some (Regular ''0123456789.'')"
    by (simp add: afero_Commit_def copier_defs perform_def rename_tree_def below_def HasPrefix_def)
  moreover have "files (snd (afero_Commit weather_afero ?s)) ''/weather/1.0.0'' = Some Directory"
    using af by (simp add: copier_defs)
  ultimately show ?thesis
    using sw a by (simp add: weather_copier_def)
qed

section \<open>Commit when a move fails\<close>

lemma Commit_moves_append:
  "Commit_moves f (xs @ ys) c =
     (case Commit_moves f xs c of (Some r, c') \<Rightarrow> (Some r, c') | (None, c') \<Rightarrow> Commit_moves f ys c')"
  by (induction xs arbitrary: c) (auto simp: Let_def split: prod.splits option.splits)

lemma sw_perform_log: "sw_log (snd (sw_perform c k)) = sw_log c @ [k]"
  by (simp add: sw_perform_def split: option.splits sum.splits)

lemma sw_perform_failed:
  "fst (sw_perform c k) = Some e \<Longrightarrow> snd (sw_perform c k) = c\<lparr>sw_log := sw_log c @ [k]\<rparr>"
  by (simp add: sw_perform_def split: option.splits sum.splits)

lemma names_after_bulk_delete:
  "names_with_prefix
     (c\<lparr>objects := filter (\<lambda>kv. \<not> (fst (fst kv) = cont \<and> snd (fst kv) \<in> set (names_with_prefix c cont pre)))
                       (objects c), sw_log := l\<rparr>) cont pre = []"
  by (auto simp: names_with_prefix_def filter_empty_conv)

lemma swift_Abort_clears:
  assumes "fst (swift_Abort f c) = None"
  shows "names_with_prefix (snd (swift_Abort f c)) (container f) (tmpObj f) = []"
proof -
  let ?k = "SwObjectNamesAll (container f) (tmpObj f)"
  let ?c1 = "snd (sw_perform c ?k)"
  let ?ns = "names_with_prefix c (container f) (tmpObj f)"
  have l: "fst (sw_perform c ?k) = None"
    using assms by (cases "sw_perform c ?k") (auto simp: swift_Abort_def ObjectNamesAll_def split: option.splits)
  then have c1: "?c1 = c\<lparr>sw_log := sw_log c @ [?k]\<rparr>"
    by (auto simp: sw_perform_def split: option.splits sum.splits if_splits)
  have ab: "swift_Abort f c = sw_perform ?c1 (SwBulkDelete (container f) ?ns)"
    using l by (cases "sw_perform c ?k") (simp add: swift_Abort_def ObjectNamesAll_def)
  have "fst (sw_perform ?c1 (SwBulkDelete (container f) ?ns)) = None"
    using assms ab by simp
  then have "snd (sw_perform ?c1 (SwBulkDelete (container f) ?ns))
      = c\<lparr>objects := filter (\<lambda>kv. \<not> (fst (fst kv) = container f \<and> snd (fst kv) \<in> set ?ns)) (objects c),
           sw_log := sw_log c @ [?k, SwBulkDelete (container f) ?ns]\<rparr>"
    unfolding c1 by (simp add: sw_perform_def split: option.splits)
  then have "names_with_prefix (snd (sw_perform ?c1 (SwBulkDelete (container f) ?ns)))
               (container f) (tmpObj f) = []"
    by (simp only: names_after_bulk_delete)
  then show ?thesis
    unfolding ab .
qed

lemma swift_Abort_keeps:
  assumes "kv \<in> set (objects c)"
      and "\<not> (fst (fst kv) = container f \<and> HasPrefix (snd (fst kv)) (tmpObj f))"
  shows "kv \<in> set (objects (snd (swift_Abort f c)))"
proof -
  have "snd (fst kv) \<notin> set (names_with_prefix c' (container f) (tmpObj f))"
    if "fst (fst kv) = container f" for c'
    using assms(2) that by (auto simp: names_with_prefix_def)
  then show ?thesis
    using assms(1)
    by (auto simp: swift_Abort_def ObjectNamesAll_def sw_perform_def
          split: option.splits sum.splits if_splits prod.splits)
qed

lemma swift_Abort_log:
  "sw_log (snd (swift_Abort f c)) =
     sw_log c @ [SwObjectNamesAll (container f) (tmpObj f)] @
     (if fst (sw_perform c (SwObjectNamesAll (container f) (tmpObj f))) = None
      then [SwBulkDelete (container f) (names_with_prefix c (container f) (tmpObj f))] else [])"
  using sw_perform_log [of c "SwObjectNamesAll (container f) (tmpObj f)"]
  by (cases "sw_perform c (SwObjectNamesAll (container f) (tmpObj f))")
     (auto simp: swift_Abort_def ObjectNamesAll_def sw_perform_log split: option.splits)

text \<open>
  Claim C3, as stated, fails: the claim has \<open>Commit\<close> return an error when a move
  fails and has no staged object reachable under the final name afterwards. \<open>Commit\<close>
  returns what \<open>Abort\<close> returns, and \<open>Abort\<close> deletes only what is still under the
  staging prefix. Two objects are staged; the move of the first succeeds, the move of
  the second fails; \<open>Abort\<close> lists and deletes the second. \<open>Commit\<close> returns no
  error, and the first object stays in the store under the final name.
\<close>

theorem swift_Commit_move_fails_counterexample:
  "fst (swift_Commit weather_copier
          (apps_conn [''apps''] [staged ''tmp-r/manifest.json'' ''m'', staged ''tmp-r/icon.png'' ''i'']
             (\<lambda>k. if k = SwObjectMove ''apps'' ''tmp-r/icon.png'' ''apps'' ''weather/1.0.0/icon.png''
                  then Some ''boom'' else None))) = None
   \<and> sw_log (snd (swift_Commit weather_copier
          (apps_conn [''apps''] [staged ''tmp-r/manifest.json'' ''m'', staged ''tmp-r/icon.png'' ''i'']
             (\<lambda>k. if k = SwObjectMove ''apps'' ''tmp-r/icon.png'' ''apps'' ''weather/1.0.0/icon.png''
                  then Some ''boom'' else None))))
       = [SwObjectNamesAll ''apps'' ''tmp-r/'',
          SwObjectMove ''apps'' ''tmp-r/manifest.json'' ''apps'' ''weather/1.0.0/manifest.json'',
          SwObjectMove ''apps'' ''tmp-r/icon.png'' ''apps'' ''weather/1.0.0/icon.png'',
          SwObjectNamesAll ''apps'' ''tmp-r/'',
          SwBulkDelete ''apps'' [''tmp-r/icon.png'']]
   \<and> objects (snd (swift_Commit weather_copier
          (apps_conn [''apps''] [staged ''tmp-r/manifest.json'' ''m'', staged ''tmp-r/icon.png'' ''i'']
             (\<lambda>k. if k = SwObjectMove ''apps'' ''tmp-r/icon.png'' ''apps'' ''weather/1.0.0/icon.png''
                  then Some ''boom'' else None))))
       = [staged ''weather/1.0.0/manifest.json'' ''m'']"
  by (simp add: copier_defs swift_run_defs)

text \<open>
  Claim C3, amended. When the staged names are listed, the moves of the names before
  \<open>src\<close> succeed and the move of \<open>src\<close> fails, \<open>Commit\<close> goes on with \<open>Abort\<close> at
  once: the store it leaves is the store \<open>Abort\<close> leaves, after the failed move the
  only calls are the listing and the bulk delete of \<open>Abort\<close> (no further move, no
  completion marker), the failed move changed no object, and when \<open>Abort\<close> succeeds
  no object remains under the staging prefix. Every object that is not under the
  staging prefix when the move fails, those moved before the failure among them, is
  still in the store afterwards. (What \<open>Commit\<close> returns is left open here.)
\<close>

theorem swift_Commit_move_fails:
  assumes names: "ObjectNamesAll c (container f) (tmpObj f) = (Inr (done @ src # rest), c1)"
      and moved: "Commit_moves f done c1 = (None, c2)"
      and fails: "sw_perform c2 (SwObjectMove (container f) src (container f)
                                   (Join [appObj f, TrimPrefix src (tmpObj f)])) = (Some e, c3)"
  shows "snd (swift_Commit f c) = snd (swift_Abort f c3)
       \<and> objects c3 = objects c2
       \<and> sw_log (snd (swift_Commit f c)) =
           sw_log c2 @
           [SwObjectMove (container f) src (container f) (Join [appObj f, TrimPrefix src (tmpObj f)]),
            SwObjectNamesAll (container f) (tmpObj f)] @
           (if fst (sw_perform c3 (SwObjectNamesAll (container f) (tmpObj f))) = None
            then [SwBulkDelete (container f) (names_with_prefix c3 (container f) (tmpObj f))] else [])
       \<and> (fst (swift_Abort f c3) = None
            \<longrightarrow> names_with_prefix (snd (swift_Commit f c)) (container f) (tmpObj f) = [])
       \<and> (\<forall>kv \<in> set (objects c2).
             \<not> (fst (fst kv) = container f \<and> HasPrefix (snd (fst kv)) (tmpObj f))
             \<longrightarrow> kv \<in> set (objects (snd (swift_Commit f c))))"
proof -
  let ?mv = "SwObjectMove (container f) src (container f) (Join [appObj f, TrimPrefix src (tmpObj f)])"
  have loop: "Commit_moves f (done @ src # rest) c1
                = (Some (fst (swift_Abort f c3)), snd (swift_Abort f c3))"
    using moved fails by (simp add: Commit_moves_append Let_def split: prod.splits)
  have commit: "swift_Commit f c = (fst (swift_Abort f c3), snd (swift_Abort f c3))"
    using names loop by (simp add: swift_Commit_def)
  have c3: "c3 = c2\<lparr>sw_log := sw_log c2 @ [?mv]\<rparr>"
    using sw_perform_failed [of c2 ?mv e] fails by simp
  have log: "sw_log c3 = sw_log c2 @ [?mv]" and obs: "objects c3 = objects c2"
    by (simp_all add: c3)
  have kept: "\<forall>kv \<in> set (objects c2).
             \<not> (fst (fst kv) = container f \<and> HasPrefix (snd (fst kv)) (tmpObj f))
             \<longrightarrow> kv \<in> set (objects (snd (swift_Commit f c)))"
    using swift_Abort_keeps [of _ c3 f] by (simp add: commit obs)
  show ?thesis
    using swift_Abort_clears [of f c3] obs kept
    by (simp add: commit swift_Abort_log log)
qed

theorem swift_Commit_move_fails_witness:
  "fst (ObjectNamesAll
          (apps_conn [''apps''] [staged ''tmp-r/manifest.json'' ''m'', staged ''tmp-r/icon.png'' ''i'']
             (\<lambda>k. if k = SwObjectMove ''apps'' ''tmp-r/icon.png'' ''apps'' ''weather/1.0.0/icon.png''
                  then Some ''boom'' else None))
          ''apps'' ''tmp-r/'')
     = Inr ([''tmp-r/manifest.json''] @ ''tmp-r/icon.png'' # [])
   \<and> names_with_prefix (snd (swift_Commit weather_copier
          (apps_conn [''apps''] [staged ''tmp-r/manifest.json'' ''m'', staged ''tmp-r/icon.png'' ''i'']
             (\<lambda>k. if k = SwObjectMove ''apps'' ''tmp-r/icon.png'' ''apps'' ''weather/1.0.0/icon.png''
                  then Some ''boom'' else None)))) ''apps'' ''tmp-r/'' = []
   \<and> map_of (objects (snd (swift_Commit weather_copier
          (apps_conn [''apps''] [staged ''tmp-r/manifest.json'' ''m'', staged ''tmp-r/icon.png'' ''i'']
             (\<lambda>k. if k = SwObjectMove ''apps'' ''tmp-r/icon.png'' ''apps'' ''weather/1.0.0/icon.png''
                  then Some ''boom'' else None))))) (''apps'', ''weather/1.0.0'') = None
   \<and> staged ''weather/1.0.0/manifest.json'' ''m''
       \<in> set (objects (snd (swift_Commit weather_copier
          (apps_conn [''apps''] [staged ''tmp-r/manifest.json'' ''m'', staged ''tmp-r/icon.png'' ''i'']
             (\<lambda>k. if k = SwObjectMove ''apps'' ''tmp-r/icon.png'' ''apps'' ''weather/1.0.0/icon.png''
                  then Some ''boom'' else None)))))"
proof -
  let ?flt = "\<lambda>k. if k = SwObjectMove ''apps'' ''tmp-r/icon.png'' ''apps'' ''weather/1.0.0/icon.png''
                  then Some ''boom'' else None"
  let ?c = "apps_conn [''apps''] [staged ''tmp-r/manifest.json'' ''m'', staged ''tmp-r/icon.png'' ''i''] ?flt"
  let ?c1 = "?c\<lparr>sw_log := [SwObjectNamesAll ''apps'' ''tmp-r/'']\<rparr>"
  let ?c2 = "snd (Commit_moves weather_copier [''tmp-r/manifest.json''] ?c1)"
  let ?mv = "SwObjectMove (container weather_copier) ''tmp-r/icon.png'' (container weather_copier)
               (Join [appObj weather_copier, TrimPrefix ''tmp-r/icon.png'' (tmpObj weather_copier)])"
  let ?c3 = "snd (sw_perform ?c2 ?mv)"
  have n: "ObjectNamesAll ?c (container weather_copier) (tmpObj weather_copier)
             = (Inr ([''tmp-r/manifest.json''] @ ''tmp-r/icon.png'' # []), ?c1)"
    by (simp add: copier_defs swift_run_defs)
  have m: "Commit_moves weather_copier [''tmp-r/manifest.json''] ?c1 = (None, ?c2)"
    by (simp add: copier_defs swift_run_defs)
  have f: "sw_perform ?c2 ?mv = (Some (BackendError ''boom''), ?c3)"
    by (simp add: copier_defs swift_run_defs)
  have a: "fst (swift_Abort weather_copier ?c3) = None"
    by (simp add: copier_defs swift_run_defs)
  note t = swift_Commit_move_fails [OF n m f]
  have "names_with_prefix (snd (swift_Commit weather_copier ?c)) ''apps'' ''tmp-r/'' = []"
    using t [THEN conjunct2, THEN conjunct2, THEN conjunct2, THEN conjunct1, THEN mp, OF a]
    by (simp add: weather_copier_def)
  moreover have "fst (ObjectNamesAll ?c ''apps'' ''tmp-r/'')
                   = Inr ([''tmp-r/manifest.json''] @ ''tmp-r/icon.png'' # [])"
    using n by (simp add: weather_copier_def)
  moreover have "map_of (objects (snd (swift_Commit weather_copier ?c))) (''apps'', ''weather/1.0.0'') = None"
    by (simp add: copier_defs swift_run_defs)
  moreover have "staged ''weather/1.0.0/manifest.json'' ''m''
                   \<in> set (objects (snd (swift_Commit weather_copier ?c)))"
  proof -
    have "staged ''weather/1.0.0/manifest.json'' ''m'' \<in> set (objects ?c2)"
      by (simp add: copier_defs swift_run_defs)
    moreover have "\<not> (fst (fst (staged ''weather/1.0.0/manifest.json'' ''m'')) = container weather_copier
              \<and> HasPrefix (snd (fst (staged ''weather/1.0.0/manifest.json'' ''m''))) (tmpObj weather_copier))"
      by (simp add: copier_defs HasPrefix_def)
    ultimately show ?thesis
      using t [THEN conjunct2, THEN conjunct2, THEN conjunct2, THEN conjunct2] by blast
  qed
  ultimately show ?thesis by blast
qed

end
